theory Spec2Isabelle
  imports Complex_Main "HOL-Library.AList"
begin

section \<open>Strings\<close>

text \<open>
  A JavaScript string is a sequence of UTF-16 code units. Isabelle's \<open>char\<close> has eight
  bits, and the scraper handles \<open>U+010D\<close> (c with caron), \<open>U+00A0\<close> (no-break space) and
  the dashes \<open>U+2013\<close> and \<open>U+2014\<close>, so a string is modelled as the list of its code
  units. \<open>ascii\<close> embeds an ASCII literal.
\<close>

type_synonym jsstring = "nat list"

definition ascii :: "string \<Rightarrow> jsstring" where
  "ascii s = map of_char s"

text \<open>\<open>s.includes(pat)\<close>, written \<open>includes'\<close>: \<open>pat\<close> occurs in \<open>s\<close> as a contiguous run.\<close>

fun startsWith :: "jsstring \<Rightarrow> jsstring \<Rightarrow> bool" where
  "startsWith s [] = True"
| "startsWith [] (p # ps) = False"
| "startsWith (c # cs) (p # ps) = (c = p \<and> startsWith cs ps)"

fun includes' :: "jsstring \<Rightarrow> jsstring \<Rightarrow> bool" where
  "includes' [] pat = (pat = [])"
| "includes' (c # cs) pat = (startsWith (c # cs) pat \<or> includes' cs pat)"

text \<open>
  \<open>s.toLowerCase()\<close>. The scraper only searches the result for the ASCII pattern
  \<open>/account/verify\<close>. The model maps the code units whose lower-case form contains an
  ASCII letter: \<open>A\<close> to \<open>Z\<close>, \<open>U+0130\<close> (which becomes \<open>i\<close> followed by \<open>U+0307\<close>) and
  \<open>U+212A\<close> (the Kelvin sign, which becomes \<open>k\<close>). Every other code unit is left as it
  is: its lower-case form holds no ASCII letter, so it cannot change the outcome of
  a search for an ASCII pattern.
\<close>

definition lowerUnit :: "nat \<Rightarrow> jsstring" where
  "lowerUnit c =
     (if 65 \<le> c \<and> c \<le> 90 then [c + 32]
      else if c = 0x130 then [105, 0x307]
      else if c = 0x212A then [107]
      else [c])"

definition toLowerCase :: "jsstring \<Rightarrow> jsstring" where
  "toLowerCase s = concat (map lowerUnit s)"

section \<open>Regular expressions\<close>

text \<open>
  The character classes of the scraper's patterns. \<open>isSpace\<close> is \<open>\s\<close>, the white space
  and line terminators of ECMAScript, which \<open>trim\<close> strips as well.
\<close>

definition isSpace :: "nat \<Rightarrow> bool" where
  "isSpace c = (c \<in> {9, 10, 11, 12, 13, 32, 0xA0, 0x1680, 0x2028, 0x2029, 0x202F,
                      0x205F, 0x3000, 0xFEFF} \<or> (0x2000 \<le> c \<and> c \<le> 0x200A))"

definition isDigit :: "nat \<Rightarrow> bool" where
  \<comment> \<open>\<open>\d\<close>\<close>
  "isDigit c = (48 \<le> c \<and> c \<le> 57)"

definition isWord :: "nat \<Rightarrow> bool" where
  \<comment> \<open>\<open>\w\<close>\<close>
  "isWord c = ((65 \<le> c \<and> c \<le> 90) \<or> (97 \<le> c \<and> c \<le> 122) \<or> isDigit c \<or> c = 95)"

text \<open>
  \<open>Canonicalize\<close> of a pattern with the flag \<open>i\<close> and without the flag \<open>u\<close>: a code
  unit is compared through its upper-case form. The patterns of the scraper hold ASCII
  characters and \<open>U+010D\<close> only, so the model maps \<open>a\<close> to \<open>z\<close> and \<open>U+010D\<close> to their
  upper-case forms and leaves every other code unit as it is: no other code unit
  canonicalizes to a character of these patterns (ECMAScript keeps a non-ASCII code
  unit whose upper-case form is ASCII as it is).
\<close>

definition canonicalize :: "nat \<Rightarrow> nat" where
  "canonicalize c = (if 97 \<le> c \<and> c \<le> 122 then c - 32 else if c = 0x10D then 0x10C else c)"

definition lit :: "char \<Rightarrow> nat \<Rightarrow> bool" where
  \<comment> \<open>an ASCII character of a pattern\<close>
  "lit p c = (c = of_char p)"

definition liti :: "nat \<Rightarrow> nat \<Rightarrow> bool" where
  \<comment> \<open>a character of a pattern with the flag \<open>i\<close>\<close>
  "liti p c = (canonicalize c = canonicalize p)"

definition ccaron :: nat where
  \<comment> \<open>\<open>U+010D\<close>, the last letter of the currency marker\<close>
  "ccaron = 0x10D"

definition enDash :: nat where
  \<comment> \<open>\<open>U+2013\<close>\<close>
  "enDash = 0x2013"

text \<open>
  The patterns of the scraper are sequences of single characters or character classes,
  each taken once, or under \<open>*\<close> or \<open>+\<close>, and the anchor \<open>$\<close>; one pattern is an
  alternation of such sequences. A pattern is a list of alternatives, an alternative a
  list of atoms.
\<close>

datatype atom = One "nat \<Rightarrow> bool" | Star "nat \<Rightarrow> bool" | Plus "nat \<Rightarrow> bool" | End

type_synonym regex = "atom list list"

text \<open>
  The greedy quantifiers of ECMAScript: take the longest run, then give characters
  back one at a time (down to \<open>lo\<close>) until the rest of the pattern, \<open>k\<close>, matches.
\<close>

fun backtrack :: "(jsstring \<Rightarrow> 'a option) \<Rightarrow> jsstring \<Rightarrow> nat \<Rightarrow> nat \<Rightarrow> (nat \<times> 'a) option" where
  "backtrack k s lo n =
     (if n < lo then None
      else case k (drop n s) of
             Some r \<Rightarrow> Some (n, r)
           | None \<Rightarrow> if n = 0 then None else backtrack k s lo (n - 1))"

declare backtrack.simps [simp del]

text \<open>
  \<open>matchHere r s\<close> matches the sequence \<open>r\<close> at the start of \<open>s\<close> and returns what each
  atom matched, in order.
\<close>

primrec matchHere :: "atom list \<Rightarrow> jsstring \<Rightarrow> jsstring list option" where
  "matchHere [] = (\<lambda>s. Some [])"
| "matchHere (a # as) = (\<lambda>s.
     case a of
       End \<Rightarrow> (if s = [] then map_option (Cons []) (matchHere as s) else None)
     | One P \<Rightarrow>
         (case s of
            [] \<Rightarrow> None
          | c # cs \<Rightarrow> if P c then map_option (Cons [c]) (matchHere as cs) else None)
     | Star P \<Rightarrow>
         (case backtrack (matchHere as) s 0 (length (takeWhile P s)) of
            None \<Rightarrow> None
          | Some (n, r) \<Rightarrow> Some (take n s # r))
     | Plus P \<Rightarrow>
         (case backtrack (matchHere as) s 1 (length (takeWhile P s)) of
            None \<Rightarrow> None
          | Some (n, r) \<Rightarrow> Some (take n s # r)))"

fun matchAlts :: "regex \<Rightarrow> jsstring \<Rightarrow> jsstring list option" where
  "matchAlts [] s = None"
| "matchAlts (r # rs) s = (case matchHere r s of Some m \<Rightarrow> Some m | None \<Rightarrow> matchAlts rs s)"

text \<open>
  \<open>search\<close> finds the leftmost match: the text before it, what each atom matched, and
  the text after it.
\<close>

fun search :: "regex \<Rightarrow> jsstring \<Rightarrow> (jsstring \<times> jsstring list \<times> jsstring) option" where
  "search r [] = (case matchAlts r [] of None \<Rightarrow> None | Some m \<Rightarrow> Some ([], m, []))"
| "search r (c # cs) =
     (case matchAlts r (c # cs) of
        Some m \<Rightarrow> Some ([], m, drop (length (concat m)) (c # cs))
      | None \<Rightarrow>
         (case search r cs of
            None \<Rightarrow> None
          | Some (before, m, after) \<Rightarrow> Some (c # before, m, after)))"

definition replace :: "regex \<Rightarrow> jsstring \<Rightarrow> jsstring \<Rightarrow> jsstring" where
  \<comment> \<open>\<open>s.replace(r, repl)\<close> for a pattern without the flag \<open>g\<close>\<close>
  "replace r repl s =
     (case search r s of None \<Rightarrow> s | Some (before, m, after) \<Rightarrow> before @ repl @ after)"

fun replaceAll :: "regex \<Rightarrow> jsstring \<Rightarrow> jsstring \<Rightarrow> jsstring" where
  \<comment> \<open>\<open>s.replace(r, repl)\<close> for a pattern with the flag \<open>g\<close>\<close>
  "replaceAll r repl [] = (case matchAlts r [] of None \<Rightarrow> [] | Some m \<Rightarrow> repl)"
| "replaceAll r repl (c # cs) =
     (case matchAlts r (c # cs) of
        None \<Rightarrow> c # replaceAll r repl cs
      | Some m \<Rightarrow>
          if concat m = [] then repl @ c # replaceAll r repl cs
          else repl @ replaceAll r repl (drop (length (concat m) - 1) cs))"

definition trim :: "jsstring \<Rightarrow> jsstring" where
  "trim s = rev (dropWhile isSpace (rev (dropWhile isSpace s)))"

section \<open>Numbers\<close>

text \<open>
  A JavaScript number. A finite number is kept as the exact decimal value it was read
  from: \<open>Num r\<close> stands for the double nearest to \<open>r\<close>. The rounding to the nearest
  double is modelled where it changes the class of the number (\<open>toNumber\<close>: a value
  beyond the largest double becomes an infinity, a value below half the smallest double
  becomes zero); inside the range the value is not rounded.
\<close>

datatype number = NaN | PosInfinity | NegInfinity | Num rat

definition isNaN :: "number \<Rightarrow> bool" where
  "isNaN x = (x = NaN)"

definition positive :: "number \<Rightarrow> bool" where
  \<comment> \<open>\<open>x > 0\<close>\<close>
  "positive x = (case x of Num r \<Rightarrow> 0 < r | PosInfinity \<Rightarrow> True | _ \<Rightarrow> False)"

definition negate :: "number \<Rightarrow> number" where
  "negate x = (case x of NaN \<Rightarrow> NaN | PosInfinity \<Rightarrow> NegInfinity
                 | NegInfinity \<Rightarrow> PosInfinity | Num r \<Rightarrow> Num (- r))"

definition overflowBound :: rat where
  \<comment> \<open>halfway between the largest double and \<open>2 ^ 1024\<close>\<close>
  "overflowBound = 2 ^ 1024 - 2 ^ 970"

definition underflowBound :: rat where
  \<comment> \<open>half the smallest positive double\<close>
  "underflowBound = 1 / 2 ^ 1075"

definition toNumber :: "rat \<Rightarrow> number" where
  "toNumber r =
     (if overflowBound \<le> r then PosInfinity
      else if r \<le> - overflowBound then NegInfinity
      else if \<bar>r\<bar> \<le> underflowBound then Num 0
      else Num r)"

definition digitsValue :: "jsstring \<Rightarrow> nat" where
  "digitsValue ds = foldl (\<lambda>a c. 10 * a + (c - 48)) 0 ds"

definition scale10 :: "rat \<Rightarrow> int \<Rightarrow> rat" where
  \<comment> \<open>\<open>m\<close> times ten to the power \<open>e\<close>\<close>
  "scale10 m e = (if 0 \<le> e then m * 10 ^ nat e else m / 10 ^ nat (- e))"

text \<open>
  \<open>parseFloat\<close> of ECMAScript: leading white space is skipped, then the longest prefix
  that is a decimal literal is read (a sign, then \<open>Infinity\<close> or digits with an
  optional fraction and an optional exponent); without such a prefix the result is
  \<open>NaN\<close>.
\<close>

definition exponentPart :: "jsstring \<Rightarrow> int" where
  "exponentPart s =
     (case s of
        [] \<Rightarrow> 0
      | c # cs \<Rightarrow>
          if c = of_char CHR ''e'' \<or> c = of_char CHR ''E'' then
            (case cs of
               [] \<Rightarrow> 0
             | d # ds \<Rightarrow>
                 if d = of_char CHR ''-'' then
                   (if takeWhile isDigit ds = [] then 0
                    else - int (digitsValue (takeWhile isDigit ds)))
                 else if d = of_char CHR ''+'' then int (digitsValue (takeWhile isDigit ds))
                 else int (digitsValue (takeWhile isDigit cs)))
          else 0)"

definition unsignedLiteral :: "jsstring \<Rightarrow> number" where
  "unsignedLiteral u =
     (if startsWith u (ascii ''Infinity'') then PosInfinity
      else
        let ip = takeWhile isDigit u;
            r1 = dropWhile isDigit u;
            hasDot = startsWith r1 (ascii ''.'');
            fp = (if hasDot then takeWhile isDigit (tl r1) else []);
            r2 = (if hasDot then dropWhile isDigit (tl r1) else r1)
        in if ip = [] \<and> fp = [] then NaN
           else toNumber (scale10 (of_nat (digitsValue (ip @ fp)))
                            (exponentPart r2 - int (length fp))))"

definition parseFloat :: "jsstring \<Rightarrow> number" where
  "parseFloat s =
     (case dropWhile isSpace s of
        [] \<Rightarrow> NaN
      | c # cs \<Rightarrow>
          if c = of_char CHR ''-'' then negate (unsignedLiteral cs)
          else if c = of_char CHR ''+'' then unsignedLiteral cs
          else unsignedLiteral (c # cs))"

section \<open>Price parsing\<close>

text \<open>The patterns of \<open>parseCzechNumber\<close>, in the order it applies them.\<close>

definition re_currency :: regex where
  \<comment> \<open>\<open>/Kc|CZK|&nbsp;/gi\<close>, where the \<open>c\<close> of \<open>Kc\<close> is \<open>U+010D\<close>\<close>
  "re_currency =
     [[One (liti (of_char CHR ''K'')), One (liti ccaron)],
      [One (liti (of_char CHR ''C'')), One (liti (of_char CHR ''Z'')),
       One (liti (of_char CHR ''K''))],
      [One (liti (of_char CHR ''&'')), One (liti (of_char CHR ''n'')),
       One (liti (of_char CHR ''b'')), One (liti (of_char CHR ''s'')),
       One (liti (of_char CHR ''p'')), One (liti (of_char CHR '';''))]]"

definition re_space :: regex where
  \<comment> \<open>\<open>/\s/g\<close>\<close>
  "re_space = [[One isSpace]]"

definition re_comma :: regex where
  \<comment> \<open>\<open>/,/g\<close>\<close>
  "re_comma = [[One (lit CHR '','')]]"

definition re_trailingDash :: regex where
  \<comment> \<open>\<open>/[-x]$/\<close>, where \<open>x\<close> is the dash \<open>U+2013\<close>\<close>
  "re_trailingDash = [[One (\<lambda>c. c = of_char CHR ''-'' \<or> c = enDash), End]]"

definition cleaned :: "jsstring \<Rightarrow> jsstring" where
  \<comment> \<open>the chain of \<open>replace\<close> and \<open>trim\<close> that gives \<open>cleaned\<close>\<close>
  "cleaned text =
     trim (replace re_trailingDash []
       (replaceAll re_comma (ascii ''.'')
         (replaceAll re_space []
           (replaceAll re_currency [] text))))"

definition parseCzechNumber :: "jsstring \<Rightarrow> number option" where
  "parseCzechNumber text =
     (if text = [] then None
      else if cleaned text = [] then None
      else let num = parseFloat (cleaned text)
           in if \<not> isNaN num \<and> positive num then Some num else None)"

text \<open>
  Modelled from the spec: \<open>Number.prototype.toLocaleString\<close> is the runtime's, not the
  repository's. For the locale \<open>cs-CZ\<close> with at least zero and at most two fraction
  digits it renders "the target locale's grouping convention": the integer digits in
  groups of three separated by a no-break space (\<open>U+00A0\<close>), a decimal comma, the
  value rounded to two fraction digits (halves away from zero) and trailing fraction
  zeros dropped.
\<close>

fun decimalDigits :: "nat \<Rightarrow> jsstring" where
  "decimalDigits n = (if n < 10 then [48 + n] else decimalDigits (n div 10) @ [48 + n mod 10])"

declare decimalDigits.simps [simp del]

fun groups :: "jsstring \<Rightarrow> jsstring" where
  "groups ds =
     (if length ds \<le> 3 then ds
      else groups (take (length ds - 3) ds) @ [0xA0] @ drop (length ds - 3) ds)"

declare groups.simps [simp del]

definition fraction :: "nat \<Rightarrow> jsstring" where
  \<comment> \<open>the hundredths \<open>f < 100\<close> as a decimal comma and one or two digits\<close>
  "fraction f =
     (if f = 0 then []
      else if f mod 10 = 0 then [of_char CHR '','', 48 + f div 10]
      else [of_char CHR '','', 48 + f div 10, 48 + f mod 10])"

text \<open>The digits of \<open>fraction\<close>, without the comma.\<close>

definition fractionDigits :: "nat \<Rightarrow> jsstring" where
  "fractionDigits f =
     (if f = 0 then [] else if f mod 10 = 0 then [48 + f div 10]
      else [48 + f div 10, 48 + f mod 10])"

definition toLocaleString :: "number \<Rightarrow> jsstring" where
  "toLocaleString x =
     (case x of
        NaN \<Rightarrow> ascii ''NaN''
      | PosInfinity \<Rightarrow> [0x221E]
      | NegInfinity \<Rightarrow> [of_char CHR ''-'', 0x221E]
      | Num r \<Rightarrow>
          let h = nat \<lfloor>\<bar>r\<bar> * 100 + 1 / 2\<rfloor>
          in (if r < 0 then [of_char CHR ''-''] else [])
             @ groups (decimalDigits (h div 100)) @ fraction (h mod 100))"

definition formatCzechPrice :: "number \<Rightarrow> jsstring" where
  "formatCzechPrice price = toLocaleString price @ ascii '' K'' @ [ccaron]"

section \<open>The parsed page\<close>

text \<open>
  \<open>node-html-parser\<close> and \<open>JSON.parse\<close> are libraries. What the scraper asks of them is
  taken as a parameter, \<open>Lib\<close>: \<open>parseHTML\<close> gives the root of the parsed markup (\<open>doc\<close>
  in the definitions), which
  answers \<open>querySelectorAll\<close> (and \<open>querySelector\<close>, its first element); \<open>offerPrice\<close>
  gives, for the text of a linked-data script, \<open>String(offer.price)\<close> when the text
  parses to data that has an offer (direct or under \<open>mainEntity\<close>, the first of a list)
  with a defined price, and nothing when it does not or when reading it throws (the
  scraper catches that and skips the script).
\<close>

record Element =
  textContent :: jsstring
  attributes :: "(jsstring \<times> jsstring) list"

record Root =
  querySelectorAll :: "jsstring \<Rightarrow> Element list"

record Lib =
  parseHTML :: "jsstring \<Rightarrow> Root"
  offerPrice :: "jsstring \<Rightarrow> jsstring option"

definition querySelector :: "Root \<Rightarrow> jsstring \<Rightarrow> Element option" where
  "querySelector doc sel = (case querySelectorAll doc sel of [] \<Rightarrow> None | e # _ \<Rightarrow> Some e)"

definition getAttribute :: "Element \<Rightarrow> jsstring \<Rightarrow> jsstring option" where
  "getAttribute e name = map_of (attributes e) name"

fun firstSome :: "('a \<Rightarrow> 'b option) \<Rightarrow> 'a list \<Rightarrow> 'b option" where
  \<comment> \<open>a \<open>for\<close> loop that returns at the first candidate that gives a result\<close>
  "firstSome f [] = None"
| "firstSome f (x # xs) = (case f x of Some y \<Rightarrow> Some y | None \<Rightarrow> firstSome f xs)"

subsection \<open>\<open>parsePrice\<close>\<close>

definition priced :: "number \<Rightarrow> (number \<times> jsstring) option" where
  \<comment> \<open>\<open>{ price, priceFormatted: formatCzechPrice(price) }\<close>\<close>
  "priced price = Some (price, formatCzechPrice price)"

definition jsonLdPrice :: "Lib \<Rightarrow> Element \<Rightarrow> (number \<times> jsstring) option" where
  "jsonLdPrice lib script =
     (case offerPrice lib (textContent script) of
        None \<Rightarrow> None
      | Some p \<Rightarrow>
          let price = parseFloat p
          in if \<not> isNaN price \<and> positive price then priced price else None)"

definition metaPrice :: "Root \<Rightarrow> jsstring \<Rightarrow> (number \<times> jsstring) option" where
  "metaPrice doc selector =
     (case querySelector doc selector of
        None \<Rightarrow> None
      | Some meta \<Rightarrow>
          (case parseCzechNumber
                  (case getAttribute meta (ascii ''content'') of None \<Rightarrow> [] | Some c \<Rightarrow> c) of
             None \<Rightarrow> None
           | Some price \<Rightarrow> priced price))"

definition selectorPrice :: "Root \<Rightarrow> jsstring \<Rightarrow> (number \<times> jsstring) option" where
  "selectorPrice doc selector =
     (case querySelector doc selector of
        None \<Rightarrow> None
      | Some el \<Rightarrow>
          (case parseCzechNumber (textContent el) of
             None \<Rightarrow> None
           | Some price \<Rightarrow> priced price))"

definition patternPrice :: "jsstring \<Rightarrow> atom list \<Rightarrow> (number \<times> jsstring) option" where
  \<comment> \<open>\<open>match[1]\<close>: the group of each fallback pattern is its first three atoms\<close>
  "patternPrice html pattern =
     (case search [pattern] html of
        None \<Rightarrow> None
      | Some (before, m, after) \<Rightarrow>
          (case parseCzechNumber (concat (take 3 m)) of
             None \<Rightarrow> None
           | Some price \<Rightarrow> priced price))"

definition metaSelectors :: "jsstring list" where
  \<open>metaSelectors =
     [ascii ''meta[property="og:price:amount"]'',
      ascii ''meta[property="product:price:amount"]'']\<close>

definition priceSelectors :: "jsstring list" where
  "priceSelectors =
     [ascii ''.price-box__price'', ascii ''.c2'', ascii ''.price_withVat'',
      ascii ''#prices .js-price-box .price-box__paragraph--price'']"

definition pricePatterns :: "atom list list" where
  \<comment> \<open>\<open>/(\d[\d\s]*\d)\s*Kc/\<close>, \<open>/(\d[\d\s]*\d),[-x]\s*Kc/\<close>, \<open>/(\d[\d\s,.]*\d)\s*CZK/\<close>\<close>
  "pricePatterns =
     [[One isDigit, Star (\<lambda>c. isDigit c \<or> isSpace c), One isDigit,
       Star isSpace, One (lit CHR ''K''), One (\<lambda>c. c = ccaron)],
      [One isDigit, Star (\<lambda>c. isDigit c \<or> isSpace c), One isDigit,
       One (lit CHR '',''), One (\<lambda>c. c = of_char CHR ''-'' \<or> c = enDash),
       Star isSpace, One (lit CHR ''K''), One (\<lambda>c. c = ccaron)],
      [One isDigit, Star (\<lambda>c. isDigit c \<or> isSpace c \<or> lit CHR '','' c \<or> lit CHR ''.'' c),
       One isDigit,
       Star isSpace, One (lit CHR ''C''), One (lit CHR ''Z''), One (lit CHR ''K'')]]"

definition parsePrice :: "Lib \<Rightarrow> jsstring \<Rightarrow> (number \<times> jsstring) option" where
  \<open>parsePrice lib html =
     (let doc = parseHTML lib html
      in case firstSome (jsonLdPrice lib)
                (querySelectorAll doc (ascii ''script[type="application/ld+json"]'')) of
           Some r \<Rightarrow> Some r
         | None \<Rightarrow>
        (case firstSome (metaPrice doc) metaSelectors of
           Some r \<Rightarrow> Some r
         | None \<Rightarrow>
        (case firstSome (selectorPrice doc) priceSelectors of
           Some r \<Rightarrow> Some r
         | None \<Rightarrow> firstSome (patternPrice html) pricePatterns)))\<close>

subsection \<open>\<open>parseProductName\<close>\<close>

definition re_siteSuffix :: regex where
  \<comment> \<open>\<open>/\s*\|\s*Alza\.\w+$/i\<close>\<close>
  "re_siteSuffix =
     [[Star isSpace, One (lit CHR ''|''), Star isSpace,
       One (liti (of_char CHR ''A'')), One (liti (of_char CHR ''l'')),
       One (liti (of_char CHR ''z'')), One (liti (of_char CHR ''a'')),
       One (lit CHR ''.''), Plus isWord, End]]"

definition re_forPrice :: regex where
  \<comment> \<open>\<open>/\s+za\s+[\d\s\u00a0]+K[xc]/i\<close>, where \<open>x\<close> is \<open>U+010D\<close>\<close>
  "re_forPrice =
     [[Plus isSpace, One (liti (of_char CHR ''z'')), One (liti (of_char CHR ''a'')),
       Plus isSpace, Plus (\<lambda>c. isDigit c \<or> isSpace c \<or> c = 0xA0),
       One (liti (of_char CHR ''K'')),
       One (\<lambda>c. liti ccaron c \<or> liti (of_char CHR ''c'') c)]]"

definition re_dashSuffix :: regex where
  \<comment> \<open>\<open>/\s+-\s+[^-]+$/\<close>\<close>
  "re_dashSuffix =
     [[Plus isSpace, One (lit CHR ''-''), Plus isSpace,
       Plus (\<lambda>c. c \<noteq> of_char CHR ''-''), End]]"

definition clean :: "jsstring \<Rightarrow> jsstring" where
  "clean name =
     trim (replace re_dashSuffix [] (replace re_forPrice [] (replace re_siteSuffix [] name)))"

definition ogContent :: "Root \<Rightarrow> jsstring option" where
  \<comment> \<open>the trimmed \<open>content\<close> of the \<open>og:title\<close> tag, when there is one and it is not empty\<close>
  \<open>ogContent doc =
     (case querySelector doc (ascii ''meta[property="og:title"]'') of
        None \<Rightarrow> None
      | Some ogTitle \<Rightarrow>
          (case getAttribute ogTitle (ascii ''content'') of
             None \<Rightarrow> None
           | Some content \<Rightarrow> if trim content = [] then None else Some (trim content)))\<close>

definition titleText :: "Root \<Rightarrow> jsstring option" where
  \<comment> \<open>the trimmed text of the \<open>title\<close> element, when there is one and it is not empty\<close>
  "titleText doc =
     (case querySelector doc (ascii ''title'') of
        None \<Rightarrow> None
      | Some title \<Rightarrow>
          if trim (textContent title) = [] then None else Some (trim (textContent title)))"

definition parseProductName :: "Lib \<Rightarrow> jsstring \<Rightarrow> jsstring" where
  "parseProductName lib html =
     (let doc = parseHTML lib html
      in case ogContent doc of
           Some content \<Rightarrow> clean content
         | None \<Rightarrow>
        (case titleText doc of
           Some text \<Rightarrow> clean text
         | None \<Rightarrow>
        (case querySelector doc (ascii ''h1'') of
           Some h1 \<Rightarrow> trim (textContent h1)
         | None \<Rightarrow> ascii ''Unknown Product'')))"

section \<open>The session store\<close>

datatype SessionStatus = logged_in | verification_required | failed | not_started

text \<open>
  \<open>interface AccountSession\<close>. Browsing contexts and pages are handles of the browser;
  they are modelled by numbers. The field \<open>context\<close> is written \<open>context'\<close>.
\<close>

record AccountSession =
  context' :: nat
  status :: SessionStatus
  phone :: "jsstring option"
  error :: "jsstring option"
  verifyPage :: "nat option"
  expires :: int

record AlzaAccount =
  email :: jsstring
  password :: jsstring
  label :: jsstring

text \<open>
  \<open>interface AccountSessionStatus\<close>, the value the operations return. Its fields
  \<open>label\<close>, \<open>status\<close>, \<open>phone\<close> and \<open>error\<close> carry the prefix \<open>st_\<close> to keep them apart
  from the fields of the account and of the session.
\<close>

record AccountSessionStatus =
  st_label :: jsstring
  st_status :: SessionStatus
  st_phone :: "jsstring option"
  st_error :: "jsstring option"

text \<open>A value thrown by an awaited call: \<open>e instanceof Error\<close> with its message, or not.\<close>

datatype thrown = Error jsstring | NonError

definition message :: "thrown \<Rightarrow> jsstring \<Rightarrow> jsstring" where
  \<comment> \<open>\<open>e instanceof Error ? e.message : dflt\<close>\<close>
  "message e dflt = (case e of Error m \<Rightarrow> m | NonError \<Rightarrow> dflt)"

text \<open>The calls the scraper makes on the browser, its contexts and its pages.\<close>

datatype BrowserCall =
    EnsureBrowser
  | Contexts
  | Pages nat
  | NewContext
  | NewPage nat
  | Goto nat jsstring
  | WaitForCloudflare nat
  | Title nat
  | WaitForSelector nat jsstring
  | Click nat jsstring
  | Fill nat jsstring jsstring
  | WaitForTimeout nat
  | Url nat
  | Evaluate nat
  | WaitForURL nat
  | Content nat
  | ClosePage nat
  | CloseContext nat

text \<open>
  The module state: \<open>sessions\<close> is the \<open>Map\<close> from the account's email to its session,
  kept as an association list in insertion order (\<open>get\<close> is \<open>map_of\<close>, \<open>set\<close> is
  \<open>AList.update\<close>, \<open>delete\<close> is \<open>AList.delete\<close>, \<open>size\<close> is \<open>length\<close>). \<open>trace\<close> records
  every call made on the browser, in order, so that "the browser was not touched" and
  "the page was not closed" can be stated.
\<close>

record World =
  sessions :: "(jsstring \<times> AccountSession) list"
  trace :: "BrowserCall list"

text \<open>
  An operation takes the state and returns either the value thrown or the value
  returned, with the state as it then is: what was written before a throw stays written.
\<close>

type_synonym 'a io = "World \<Rightarrow> (thrown + 'a) \<times> World"

definition returnM :: "'a \<Rightarrow> 'a io" where
  "returnM x = (\<lambda>w. (Inr x, w))"

definition throwM :: "thrown \<Rightarrow> 'a io" where
  "throwM e = (\<lambda>w. (Inl e, w))"

definition bindM :: "'a io \<Rightarrow> ('a \<Rightarrow> 'b io) \<Rightarrow> 'b io" where
  "bindM m f = (\<lambda>w. case m w of (Inl e, w') \<Rightarrow> (Inl e, w') | (Inr x, w') \<Rightarrow> f x w')"

definition thenM :: "unit io \<Rightarrow> 'b io \<Rightarrow> 'b io" where
  "thenM m k = bindM m (\<lambda>_. k)"

definition catchM :: "'a io \<Rightarrow> (thrown \<Rightarrow> 'a io) \<Rightarrow> 'a io" where
  \<comment> \<open>\<open>try { m } catch (e) { h }\<close>\<close>
  "catchM m h = (\<lambda>w. case m w of (Inl e, w') \<Rightarrow> h e w' | (Inr x, w') \<Rightarrow> (Inr x, w'))"

definition finallyM :: "'a io \<Rightarrow> unit io \<Rightarrow> 'a io" where
  \<comment> \<open>\<open>try { m } finally { fin }\<close>: a throw of \<open>fin\<close> replaces the outcome of \<open>m\<close>\<close>
  "finallyM m fin =
     (\<lambda>w. case m w of (r, w') \<Rightarrow>
        (case fin w' of (Inl e, w'') \<Rightarrow> (Inl e, w'') | (Inr _, w'') \<Rightarrow> (r, w'')))"

definition call :: "BrowserCall \<Rightarrow> thrown + 'a \<Rightarrow> 'a io" where
  \<comment> \<open>a call on the browser and the outcome the browser gives it\<close>
  "call c outcome = (\<lambda>w. (outcome, w\<lparr>trace := trace w @ [c]\<rparr>))"

definition swallow :: "BrowserCall \<Rightarrow> unit io" where
  \<comment> \<open>\<open>await x.close().catch(() => {})\<close>: the call is made, its failure is dropped\<close>
  "swallow c = (\<lambda>w. (Inr (), w\<lparr>trace := trace w @ [c]\<rparr>))"

definition sessions_get :: "jsstring \<Rightarrow> AccountSession option io" where
  "sessions_get k = (\<lambda>w. (Inr (map_of (sessions w) k), w))"

definition sessions_set :: "jsstring \<Rightarrow> AccountSession \<Rightarrow> unit io" where
  "sessions_set k s = (\<lambda>w. (Inr (), w\<lparr>sessions := AList.update k s (sessions w)\<rparr>))"

definition sessions_delete :: "jsstring \<Rightarrow> unit io" where
  "sessions_delete k = (\<lambda>w. (Inr (), w\<lparr>sessions := AList.delete k (sessions w)\<rparr>))"

definition sessions_size :: "nat io" where
  "sessions_size = (\<lambda>w. (Inr (length (sessions w)), w))"

definition SESSION_TTL :: int where
  "SESSION_TTL = 10 * 60 * 1000"

section \<open>Reading the status of an account\<close>

text \<open>
  \<open>getSessionStatus\<close>. \<open>now\<close> is the value of \<open>Date.now()\<close> at the call.
\<close>

definition getSessionStatus :: "AlzaAccount \<Rightarrow> int \<Rightarrow> AccountSessionStatus io" where
  "getSessionStatus account now =
     bindM (sessions_get (email account)) (\<lambda>session.
       case session of
         None \<Rightarrow>
           returnM \<lparr>st_label = label account, st_status = not_started,
                    st_phone = None, st_error = None\<rparr>
       | Some s \<Rightarrow>
           if status s = logged_in \<and> expires s \<le> now
           then returnM \<lparr>st_label = label account, st_status = not_started,
                         st_phone = None, st_error = None\<rparr>
           else returnM \<lparr>st_label = label account, st_status = status s,
                         st_phone = phone s, st_error = error s\<rparr>)"

section \<open>Scraping\<close>

record ScrapedData =
  product :: jsstring
  price :: number
  priceFormatted :: jsstring

text \<open>
  What the outside gives one run of \<open>scrapePrice\<close>: the clock and the outcome of each
  awaited call, a value or a throw.
\<close>

record ScrapeEnv =
  s_now :: int  \<comment> \<open>\<open>Date.now()\<close>\<close>
  s_newPage :: "thrown + nat"  \<comment> \<open>\<open>session.context.newPage()\<close>\<close>
  s_goto :: "thrown + unit"
  s_waitForCloudflare :: "thrown + unit"
  s_content :: "thrown + jsstring"  \<comment> \<open>\<open>page.content()\<close>\<close>
  s_close :: "thrown + unit"  \<comment> \<open>\<open>page.close()\<close> in \<open>finally\<close>\<close>

definition noActiveSession :: "AlzaAccount \<Rightarrow> thrown" where
  "noActiveSession account =
     Error (ascii ''No active session for '' @ label account @ ascii ''. Call /auth/init first.'')"

definition sessionExpired :: "AlzaAccount \<Rightarrow> thrown" where
  "sessionExpired account =
     Error (ascii ''Session expired for '' @ label account
              @ ascii ''. Call /auth/init to re-login.'')"

definition scrapePrice ::
  "Lib \<Rightarrow> AlzaAccount \<Rightarrow> jsstring \<Rightarrow> ScrapeEnv \<Rightarrow> ScrapedData io" where
  "scrapePrice lib account url env =
     bindM (sessions_get (email account)) (\<lambda>session.
       case session of
         None \<Rightarrow> throwM (noActiveSession account)
       | Some s \<Rightarrow>
           if status s \<noteq> logged_in then throwM (noActiveSession account)
           else if expires s \<le> s_now env then
             thenM (sessions_delete (email account)) (throwM (sessionExpired account))
           else
             bindM (call (NewPage (context' s)) (s_newPage env)) (\<lambda>page.
               finallyM
                 (thenM (call (Goto page url) (s_goto env))
                 (thenM (call (WaitForCloudflare page) (s_waitForCloudflare env))
                 (bindM (call (Content page) (s_content env)) (\<lambda>html.
                    case parsePrice lib html of
                      None \<Rightarrow>
                        throwM (Error (ascii ''Could not extract price from account: ''
                                         @ label account))
                    | Some (p, formatted) \<Rightarrow>
                        returnM \<lparr>product = parseProductName lib html, price = p,
                                 priceFormatted = formatted\<rparr>))))
                 (call (ClosePage page) (s_close env))))"

section \<open>Logging in\<close>

text \<open>
  What the outside gives one run of \<open>initLogin\<close>, one field for each place of the
  function that reads the clock or calls the browser, in the order of the source. The
  pacing delays and the log lines do not touch the state and are left out.
\<close>

record LoginEnv =
  l_now :: int  \<comment> \<open>\<open>Date.now()\<close> at the check of the cached session\<close>
  l_ensureBrowser :: "thrown + unit"
  l_defaultCtx :: "nat option"  \<comment> \<open>\<open>b.contexts()[0]\<close>\<close>
  l_pages :: "(nat \<times> jsstring) list"  \<comment> \<open>the pages of that context and their URLs\<close>
  l_newContext :: "thrown + nat"
  l_newPage :: "thrown + nat"
  l_goto :: "thrown + unit"
  l_waitForCloudflare :: "thrown + unit"
  l_title :: "thrown + jsstring"
  l_waitForSelector :: "thrown + unit"
  l_clickUserName :: "thrown + unit"
  l_fillUserName :: "thrown + unit"
  l_clickPassword :: "thrown + unit"
  l_fillPassword :: "thrown + unit"
  l_clickSubmit :: "thrown + unit"
  l_waitForTimeout :: "thrown + unit"
  l_afterLoginUrl :: jsstring
  l_phone :: "thrown + jsstring option"  \<comment> \<open>the phone hint read from the page\<close>
  l_nowSet :: int  \<comment> \<open>\<open>Date.now()\<close> when the session is stored\<close>
  l_closeDirect :: "thrown + unit"  \<comment> \<open>\<open>page.close()\<close> after a direct redirect\<close>
  l_waitForURL :: "thrown + unit"
  l_closeDelayed :: "thrown + unit"  \<comment> \<open>\<open>page.close()\<close> after a delayed redirect\<close>
  l_urlAfterWait :: jsstring  \<comment> \<open>\<open>page.url()\<close> after the failed wait\<close>
  l_phoneDelayed :: "thrown + jsstring option"
  l_pageTitle :: "thrown + jsstring"
  l_bodyText :: "thrown + jsstring option"
  l_closeUnexpected :: "thrown + unit"  \<comment> \<open>\<open>page.close()\<close> of the unexpected state\<close>

definition submitButton :: jsstring where
  \<open>submitButton = ascii ''button[type="submit"]''\<close>

definition loginUrl :: jsstring where
  "loginUrl = ascii ''https://identity.alza.cz/Account/Login''"

definition findLoginPage :: "(nat \<times> jsstring) list \<Rightarrow> nat option" where
  \<comment> \<open>the loop over \<open>context.pages()\<close>: the first page whose URL names the identity host\<close>
  "findLoginPage pages =
     (case filter (\<lambda>(p, u). includes' u (ascii ''identity.alza.cz'')) pages of
        [] \<Rightarrow> None
      | (p, u) # _ \<Rightarrow> Some p)"

definition openLoginPage :: "LoginEnv \<Rightarrow> nat \<Rightarrow> (nat \<times> nat) io" where
  \<comment> \<open>the body of \<open>if (!page)\<close> once \<open>context\<close> is known\<close>
  "openLoginPage env context =
     bindM (call (NewPage context) (l_newPage env)) (\<lambda>page.
     thenM (call (Goto page loginUrl) (l_goto env))
    (thenM (call (WaitForCloudflare page) (l_waitForCloudflare env))
       (returnM (context, page))))"

definition locatePage :: "LoginEnv \<Rightarrow> (nat \<times> nat) io" where
  \<comment> \<open>the context and the page of the login: lines 158 to 190\<close>
  "locatePage env =
     bindM (call Contexts (Inr (l_defaultCtx env))) (\<lambda>defaultCtx.
     bindM sessions_size (\<lambda>size.
       case defaultCtx of
         None \<Rightarrow> bindM (call NewContext (l_newContext env)) (openLoginPage env)
       | Some d \<Rightarrow>
           bindM (if size = 0 then call (Pages d) (Inr (findLoginPage (l_pages env)))
                  else returnM None) (\<lambda>found.
             case found of
               Some page \<Rightarrow> returnM (d, page)
             | None \<Rightarrow> openLoginPage env d)))"

definition fillLoginForm :: "AlzaAccount \<Rightarrow> LoginEnv \<Rightarrow> nat \<Rightarrow> unit io" where
  \<comment> \<open>lines 192 to 213\<close>
  "fillLoginForm account env page =
     bindM (call (Title page) (l_title env)) (\<lambda>_.
     thenM (call (WaitForSelector page (ascii ''#userName'')) (l_waitForSelector env))
    (thenM (call (Click page (ascii ''#userName'')) (l_clickUserName env))
    (thenM (call (Fill page (ascii ''#userName'') (email account)) (l_fillUserName env))
    (thenM (call (Click page (ascii ''#password'')) (l_clickPassword env))
    (thenM (call (Fill page (ascii ''#password'') (password account)) (l_fillPassword env))
    (thenM (call (Click page submitButton) (l_clickSubmit env))
           (call (WaitForTimeout page) (l_waitForTimeout env))))))))"

definition loggedIn :: "AlzaAccount \<Rightarrow> AccountSessionStatus" where
  \<comment> \<open>\<open>{ label: account.label, status: "logged_in" }\<close>\<close>
  "loggedIn account =
     \<lparr>st_label = label account, st_status = logged_in, st_phone = None, st_error = None\<rparr>"

definition storeVerification ::
  "AlzaAccount \<Rightarrow> LoginEnv \<Rightarrow> nat \<Rightarrow> nat \<Rightarrow> jsstring option \<Rightarrow> AccountSessionStatus io" where
  "storeVerification account env context page ph =
     thenM (sessions_set (email account)
              \<lparr>context' = context, status = verification_required, phone = ph,
               error = None, verifyPage = Some page,
               expires = l_nowSet env + SESSION_TTL\<rparr>)
       (returnM \<lparr>st_label = label account, st_status = verification_required,
                 st_phone = ph, st_error = None\<rparr>)"

definition storeLoggedIn ::
  "AlzaAccount \<Rightarrow> LoginEnv \<Rightarrow> nat \<Rightarrow> AccountSessionStatus io" where
  "storeLoggedIn account env context =
     thenM (sessions_set (email account)
              \<lparr>context' = context, status = logged_in, phone = None, error = None,
               verifyPage = None, expires = l_nowSet env + SESSION_TTL\<rparr>)
       (returnM (loggedIn account))"

definition classify ::
  "AlzaAccount \<Rightarrow> LoginEnv \<Rightarrow> nat \<Rightarrow> nat \<Rightarrow> AccountSessionStatus io" where
  \<comment> \<open>lines 214 to 286\<close>
  "classify account env context page =
     bindM (call (Url page) (Inr (l_afterLoginUrl env))) (\<lambda>afterLoginUrl.
       if includes' afterLoginUrl (ascii ''/Account/Verify'')
          \<or> includes' (toLowerCase afterLoginUrl) (ascii ''/account/verify'') then
         bindM (call (Evaluate page) (l_phone env))
           (storeVerification account env context page)
       else if includes' afterLoginUrl (ascii ''alza.cz'')
               \<and> \<not> includes' afterLoginUrl (ascii ''identity.alza.cz'') then
         thenM (call (ClosePage page) (l_closeDirect env))
           (storeLoggedIn account env context)
       else
         bindM
           (catchM
              (thenM (call (WaitForURL page) (l_waitForURL env))
              (thenM (call (ClosePage page) (l_closeDelayed env))
                 (bindM (storeLoggedIn account env context) (\<lambda>r. returnM (Some r)))))
              (\<lambda>_.
                 bindM (call (Url page) (Inr (l_urlAfterWait env))) (\<lambda>u.
                   if includes' u (ascii ''/Account/Verify'') then
                     bindM (call (Evaluate page) (l_phoneDelayed env)) (\<lambda>ph.
                     bindM (storeVerification account env context page ph) (\<lambda>r.
                       returnM (Some r)))
                   else returnM None)))
           (\<lambda>returned.
              case returned of
                Some r \<Rightarrow> returnM r
              | None \<Rightarrow>
                  bindM (call (Title page) (l_pageTitle env)) (\<lambda>pageTitle.
                  bindM (call (Evaluate page) (l_bodyText env)) (\<lambda>bodyText.
                  thenM (call (ClosePage page) (l_closeUnexpected env))
                    (returnM
                       \<lparr>st_label = label account, st_status = failed, st_phone = None,
                        st_error = Some (ascii ''Unexpected state: '' @ pageTitle
                                          @ ascii '' ('' @ afterLoginUrl @ ascii '')'')\<rparr>)))))"

definition cachedValid :: "AccountSession option \<Rightarrow> int \<Rightarrow> bool" where
  \<comment> \<open>\<open>cached && cached.status === "logged_in" && cached.expires > Date.now()\<close>\<close>
  "cachedValid cached now =
     (case cached of None \<Rightarrow> False | Some c \<Rightarrow> status c = logged_in \<and> now < expires c)"

definition discard :: "AlzaAccount \<Rightarrow> AccountSession option \<Rightarrow> unit io" where
  \<comment> \<open>\<open>if (cached) { ... }\<close>: the old session's page and context are closed, the record deleted\<close>
  "discard account cached =
     (case cached of
        None \<Rightarrow> returnM ()
      | Some c \<Rightarrow>
          thenM (case verifyPage c of None \<Rightarrow> returnM () | Some p \<Rightarrow> swallow (ClosePage p))
         (thenM (swallow (CloseContext (context' c)))
                (sessions_delete (email account))))"

definition attempt :: "AlzaAccount \<Rightarrow> LoginEnv \<Rightarrow> AccountSessionStatus io" where
  \<comment> \<open>the body of the \<open>try\<close> of \<open>initLogin\<close>\<close>
  "attempt account env =
     thenM (call EnsureBrowser (l_ensureBrowser env))
    (bindM (locatePage env) (\<lambda>(context, page).
     thenM (fillLoginForm account env page)
           (classify account env context page)))"

definition initLogin :: "AlzaAccount \<Rightarrow> LoginEnv \<Rightarrow> AccountSessionStatus io" where
  "initLogin account env =
     bindM (sessions_get (email account)) (\<lambda>cached.
       if cachedValid cached (l_now env) then returnM (loggedIn account)
       else
         thenM (discard account cached)
           (catchM (attempt account env)
              (\<lambda>e. returnM \<lparr>st_label = label account, st_status = failed, st_phone = None,
                              st_error = Some (message e (ascii ''Unknown error''))\<rparr>)))"

section \<open>Submitting the verification code\<close>

record VerifyEnv =
  v_currentUrl :: jsstring  \<comment> \<open>\<open>page.url()\<close> on entry\<close>
  v_goto :: "thrown + unit"
  v_waitForCloudflare :: "thrown + unit"
  v_waitFor :: "thrown + unit"  \<comment> \<open>\<open>codeInput.waitFor\<close>\<close>
  v_fill :: "thrown + unit"
  v_waitForURL :: "thrown + unit"
  v_close :: "thrown + unit"
  v_now :: int  \<comment> \<open>\<open>Date.now()\<close> when the session is promoted\<close>
  v_urlAfter :: jsstring  \<comment> \<open>\<open>page.url()\<close> in the handler\<close>

definition noPending :: "AlzaAccount \<Rightarrow> AccountSessionStatus" where
  "noPending account =
     \<lparr>st_label = label account, st_status = failed, st_phone = None,
      st_error = Some (ascii ''No pending verification for this account'')\<rparr>"

text \<open>
  \<open>session\<close> is the object held by the store, and the function assigns to its fields.
  The operations run one after the other, so the object is still the one in the
  store when the fields are assigned: the assignments are an update of the entry.
\<close>

definition submitAttempt ::
  "AlzaAccount \<Rightarrow> jsstring \<Rightarrow> VerifyEnv \<Rightarrow> AccountSession \<Rightarrow> nat \<Rightarrow> AccountSessionStatus io" where
  \<comment> \<open>the body of the \<open>try\<close> of \<open>submitVerificationCode\<close>\<close>
  "submitAttempt account code env s page =
     bindM (call (Url page) (Inr (v_currentUrl env))) (\<lambda>currentUrl.
     thenM (if \<not> includes' (toLowerCase currentUrl) (ascii ''/account/verify'')
            then thenM (call (Goto page (ascii ''https://identity.alza.cz/Account/Verify''))
                          (v_goto env))
                   (call (WaitForCloudflare page) (v_waitForCloudflare env))
            else returnM ())
    (thenM (call (WaitForSelector page (ascii ''#code'')) (v_waitFor env))
    (thenM (call (Fill page (ascii ''#code'') code) (v_fill env))
    (thenM (call (WaitForURL page) (v_waitForURL env))
    (thenM (call (ClosePage page) (v_close env))
    (thenM (sessions_set (email account)
              (s\<lparr>verifyPage := None, status := logged_in,
                 expires := v_now env + SESSION_TTL\<rparr>))
       (returnM (loggedIn account))))))))"

definition submitFailed ::
  "AlzaAccount \<Rightarrow> VerifyEnv \<Rightarrow> AccountSession \<Rightarrow> nat \<Rightarrow> thrown \<Rightarrow> AccountSessionStatus io" where
  \<comment> \<open>the handler, \<open>catch (e)\<close>, of \<open>submitVerificationCode\<close>\<close>
  "submitFailed account env s page e =
     bindM (call (Url page) (Inr (v_urlAfter env))) (\<lambda>currentUrl.
       if includes' currentUrl (ascii ''/Account/Verify'') then
         returnM \<lparr>st_label = label account, st_status = verification_required,
                  st_phone = phone s,
                  st_error = Some (ascii ''Invalid code, try again'')\<rparr>
       else
         thenM (swallow (ClosePage page))
        (thenM (sessions_set (email account)
                  (s\<lparr>verifyPage := None, status := failed,
                     error := Some (message e (ascii ''Verification failed''))\<rparr>))
           (returnM \<lparr>st_label = label account, st_status = failed, st_phone = None,
                     st_error = Some (message e (ascii ''Verification failed''))\<rparr>)))"

definition submitVerificationCode ::
  "AlzaAccount \<Rightarrow> jsstring \<Rightarrow> VerifyEnv \<Rightarrow> AccountSessionStatus io" where
  "submitVerificationCode account code env =
     bindM (sessions_get (email account)) (\<lambda>session.
       case session of
         None \<Rightarrow> returnM (noPending account)
       | Some s \<Rightarrow>
           if status s \<noteq> verification_required then returnM (noPending account)
           else
             (case verifyPage s of
                None \<Rightarrow> returnM (noPending account)
              | Some page \<Rightarrow>
                  catchM (submitAttempt account code env s page)
                         (submitFailed account env s page)))"

section \<open>Scenarios\<close>

text \<open>
  Concrete accounts, states and runs, on which the properties below are evaluated.
  \<open>smoothLogin\<close> is a run of \<open>initLogin\<close> in which every call succeeds and the login form
  redirects to the main site; the other runs differ from it in the fields named.
\<close>

definition personal :: AlzaAccount where
  "personal = \<lparr>email = ascii ''personal@example.cz'', password = ascii ''secret1'',
               label = ascii ''Personal''\<rparr>"

definition business :: AlzaAccount where
  "business = \<lparr>email = ascii ''business@example.cz'', password = ascii ''secret2'',
               label = ascii ''Business''\<rparr>"

definition emptyWorld :: World where
  "emptyWorld = \<lparr>sessions = [], trace = []\<rparr>"

definition pendingSession :: AccountSession where
  "pendingSession =
     \<lparr>context' = 0, status = verification_required, phone = Some (ascii ''*** *** 123''),
      error = None, verifyPage = Some 1, expires = 500\<rparr>"

definition activeSession :: AccountSession where
  "activeSession =
     \<lparr>context' = 0, status = logged_in, phone = None, error = None, verifyPage = None,
      expires = 500\<rparr>"

definition smoothLogin :: LoginEnv where
  "smoothLogin =
     \<lparr>l_now = 1000, l_ensureBrowser = Inr (), l_defaultCtx = Some 0,
      l_pages = [(1, ascii ''https://identity.alza.cz/Account/Login'')],
      l_newContext = Inr 7, l_newPage = Inr 2, l_goto = Inr (),
      l_waitForCloudflare = Inr (), l_title = Inr (ascii ''Alza''),
      l_waitForSelector = Inr (), l_clickUserName = Inr (), l_fillUserName = Inr (),
      l_clickPassword = Inr (), l_fillPassword = Inr (), l_clickSubmit = Inr (),
      l_waitForTimeout = Inr (), l_afterLoginUrl = ascii ''https://www.alza.cz/'',
      l_phone = Inr None, l_nowSet = 9000, l_closeDirect = Inr (),
      l_waitForURL = Inr (), l_closeDelayed = Inr (),
      l_urlAfterWait = ascii ''https://www.alza.cz/'', l_phoneDelayed = Inr None,
      l_pageTitle = Inr (ascii ''Alza''), l_bodyText = Inr None,
      l_closeUnexpected = Inr ()\<rparr>"

definition blockedLogin :: LoginEnv where
  \<comment> \<open>the browser cannot be created: the challenge never clears\<close>
  "blockedLogin =
     smoothLogin\<lparr>l_ensureBrowser :=
                   Inl (Error (ascii ''Cloudflare did not resolve within 120s''))\<rparr>"

definition delayedLogin :: LoginEnv where
  \<comment> \<open>the form stays on the identity host and the redirect comes during the wait\<close>
  "delayedLogin =
     smoothLogin\<lparr>l_afterLoginUrl := ascii ''https://identity.alza.cz/Account/Login''\<rparr>"

definition rejectedCode :: VerifyEnv where
  \<comment> \<open>the redirect wait times out and the page is still on the verification path\<close>
  "rejectedCode =
     \<lparr>v_currentUrl = ascii ''https://identity.alza.cz/Account/Verify'',
      v_goto = Inr (), v_waitForCloudflare = Inr (), v_waitFor = Inr (), v_fill = Inr (),
      v_waitForURL = Inl (Error (ascii ''Timeout 30000ms exceeded'')), v_close = Inr (),
      v_now = 9000, v_urlAfter = ascii ''https://identity.alza.cz/Account/Verify''\<rparr>"

definition acceptedCode :: VerifyEnv where
  "acceptedCode = rejectedCode\<lparr>v_waitForURL := Inr ()\<rparr>"

definition lostPage :: VerifyEnv where
  \<comment> \<open>the redirect wait times out and the page has left the verification path\<close>
  "lostPage = rejectedCode\<lparr>v_urlAfter := ascii ''https://identity.alza.cz/Account/Login''\<rparr>"

definition afterPersonal :: World where
  \<comment> \<open>the state after \<open>personal\<close> has logged in, by \<open>smoothLogin\<close>, from the empty state\<close>
  "afterPersonal =
     \<lparr>sessions = [(email personal,
                    \<lparr>context' = 0, status = logged_in, phone = None, error = None,
                     verifyPage = None, expires = 609000\<rparr>)],
      trace = [EnsureBrowser, Contexts, Pages 0, Title 1,
               WaitForSelector 1 (ascii ''#userName''), Click 1 (ascii ''#userName''),
               Fill 1 (ascii ''#userName'') (email personal),
               Click 1 (ascii ''#password''),
               Fill 1 (ascii ''#password'') (password personal),
               Click 1 submitButton, WaitForTimeout 1, Url 1, ClosePage 1]\<rparr>"

definition pendingWorld :: World where
  \<comment> \<open>\<open>personal\<close> waits for the verification code on page 1\<close>
  "pendingWorld = \<lparr>sessions = [(email personal, pendingSession)], trace = []\<rparr>"







definition blankLib :: Lib where
  \<comment> \<open>a page in which no selector finds anything\<close>
  "blankLib = \<lparr>parseHTML = (\<lambda>html. \<lparr>querySelectorAll = (\<lambda>sel. [])\<rparr>),
               offerPrice = (\<lambda>text. None)\<rparr>"

definition smoothScrape :: ScrapeEnv where
  "smoothScrape =
     \<lparr>s_now = 1000, s_newPage = Inr 3, s_goto = Inr (), s_waitForCloudflare = Inr (),
      s_content = Inr [], s_close = Inr ()\<rparr>"

section \<open>What a login attempt leaves behind\<close>

text \<open>
  The four ways the \<open>try\<close> block of \<open>initLogin\<close> can end, with the store \<open>ss'\<close> it leaves
  from the store \<open>ss\<close> it started with: logged in, verification required, failed with
  a message, or a throw; only the first two write to the store.
\<close>

definition outcome_ok ::
  "AlzaAccount \<Rightarrow> LoginEnv \<Rightarrow> (jsstring \<times> AccountSession) list
     \<Rightarrow> thrown + AccountSessionStatus \<Rightarrow> (jsstring \<times> AccountSession) list \<Rightarrow> bool" where
  "outcome_ok account env ss res ss' =
     ((\<exists>c. res = Inr (loggedIn account) \<and>
            ss' = AList.update (email account)
                    \<lparr>context' = c, status = logged_in, phone = None, error = None,
                     verifyPage = None, expires = l_nowSet env + SESSION_TTL\<rparr> ss)
      \<or> (\<exists>ph c page.
            res = Inr \<lparr>st_label = label account, st_status = verification_required,
                        st_phone = ph, st_error = None\<rparr> \<and>
            ss' = AList.update (email account)
                    \<lparr>context' = c, status = verification_required, phone = ph,
                     error = None, verifyPage = Some page,
                     expires = l_nowSet env + SESSION_TTL\<rparr> ss)
      \<or> ((\<exists>m. res = Inr \<lparr>st_label = label account, st_status = failed,
                            st_phone = None, st_error = Some m\<rparr>) \<and> ss' = ss)
      \<or> ((\<exists>e. res = Inl e) \<and> ss' = ss))"

section \<open>Properties\<close>

lemmas io_defs =
  bindM_def thenM_def returnM_def throwM_def catchM_def finallyM_def call_def swallow_def
  sessions_get_def sessions_set_def sessions_delete_def sessions_size_def

lemma map_of_delete_same: "map_of (AList.delete k xs) k = None"
  by (simp add: AList.delete_conv')

lemma delete_absent: "map_of xs k = None \<Longrightarrow> AList.delete k xs = xs"
  by (induction xs) (auto split: if_splits)

lemma map_of_update_same: "map_of (AList.update k v xs) k = Some v"
  by (simp add: AList.update_conv')

lemmas login_defs =
  initLogin_def attempt_def locatePage_def openLoginPage_def fillLoginForm_def
  classify_def storeLoggedIn_def storeVerification_def discard_def cachedValid_def
  findLoginPage_def loggedIn_def toLowerCase_def lowerUnit_def SESSION_TTL_def
  loginUrl_def message_def

lemmas verify_defs =
  submitVerificationCode_def submitAttempt_def submitFailed_def noPending_def

lemmas scenario_defs =
  smoothLogin_def blockedLogin_def delayedLogin_def personal_def business_def
  emptyWorld_def pendingSession_def activeSession_def rejectedCode_def acceptedCode_def
  lostPage_def afterPersonal_def pendingWorld_def

subsection \<open>The outcomes of a login\<close>

lemma openLoginPage_sessions:
  "openLoginPage env c w = (r, w') \<Longrightarrow> sessions w' = sessions w"
  by (auto simp add: openLoginPage_def io_defs split: sum.splits)

lemma locatePage_sessions:
  "locatePage env w = (r, w') \<Longrightarrow> sessions w' = sessions w"
  by (auto simp add: locatePage_def io_defs split: sum.splits option.splits if_splits
      dest: openLoginPage_sessions)

lemma fillLoginForm_sessions:
  "fillLoginForm account env page w = (r, w') \<Longrightarrow> sessions w' = sessions w"
  by (auto simp add: fillLoginForm_def io_defs split: sum.splits)

lemma classify_cases0:
  assumes "classify account env context page w = (res, w')"
  shows "(res = Inr (loggedIn account) \<and>
          sessions w' = AList.update (email account)
             \<lparr>context' = context, status = logged_in, phone = None, error = None,
              verifyPage = None, expires = l_nowSet env + SESSION_TTL\<rparr> (sessions w))
       \<or> (\<exists>ph. res = Inr \<lparr>st_label = label account, st_status = verification_required,
                 st_phone = ph, st_error = None\<rparr> \<and>
          sessions w' = AList.update (email account)
             \<lparr>context' = context, status = verification_required, phone = ph, error = None,
              verifyPage = Some page, expires = l_nowSet env + SESSION_TTL\<rparr> (sessions w))
       \<or> ((\<exists>m. res = Inr \<lparr>st_label = label account, st_status = failed,
                 st_phone = None, st_error = Some m\<rparr>) \<and> sessions w' = sessions w)
       \<or> ((\<exists>e. res = Inl e) \<and> sessions w' = sessions w)"
  using assms
  by (auto simp add: classify_def storeLoggedIn_def storeVerification_def io_defs
      split: sum.splits option.splits if_splits)

lemma classify_cases:
  assumes "classify account env context page w = (res, w')"
  shows "outcome_ok account env (sessions w) res (sessions w')"
  using classify_cases0[OF assms] unfolding outcome_ok_def by blast

lemma outcome_ok_thrown: "ss' = ss \<Longrightarrow> outcome_ok account env ss (Inl e) ss'"
  by (simp add: outcome_ok_def)

lemma attempt_cases:
  assumes "attempt account env w = (res, w')"
  shows "outcome_ok account env (sessions w) res (sessions w')"
proof (cases "l_ensureBrowser env")
  case (Inl e)
  with assms have "res = Inl e" "sessions w' = sessions w"
    by (auto simp add: attempt_def io_defs)
  then show ?thesis by (simp add: outcome_ok_thrown)
next
  case (Inr u)
  let ?w1 = "w\<lparr>trace := trace w @ [EnsureBrowser]\<rparr>"
  obtain r1 w2 where l: "locatePage env ?w1 = (r1, w2)" by (cases "locatePage env ?w1")
  then have s2: "sessions w2 = sessions w" using locatePage_sessions by fastforce
  show ?thesis
  proof (cases r1)
    case (Inl e)
    with assms Inr l have "res = Inl e" "w' = w2"
      by (auto simp add: attempt_def io_defs)
    with s2 show ?thesis by (simp add: outcome_ok_thrown)
  next
    case r1: (Inr cp)
    obtain ctx page where cp: "cp = (ctx, page)" by (cases cp)
    obtain r3 w3 where f: "fillLoginForm account env page w2 = (r3, w3)"
      by (cases "fillLoginForm account env page w2")
    then have s3: "sessions w3 = sessions w" using fillLoginForm_sessions s2 by fastforce
    show ?thesis
    proof (cases r3)
      case (Inl e)
      with assms Inr l r1 cp f have "res = Inl e" "w' = w3"
        by (auto simp add: attempt_def io_defs)
      with s3 show ?thesis by (simp add: outcome_ok_thrown)
    next
      case r3: (Inr u3)
      from assms Inr l r1 cp f r3 have "classify account env ctx page w3 = (res, w')"
        by (simp add: attempt_def io_defs)
      from classify_cases[OF this] s3 show ?thesis by simp
    qed
  qed
qed


lemma discard_result:
  "\<exists>t. discard account (map_of (sessions w) (email account)) w =
     (Inr (), w\<lparr>sessions := AList.delete (email account) (sessions w), trace := t\<rparr>)"
proof (cases "map_of (sessions w) (email account)")
  case None
  then have "AList.delete (email account) (sessions w) = sessions w" by (rule delete_absent)
  with None show ?thesis
    by (intro exI[of _ "trace w"]) (simp add: discard_def io_defs)
next
  case (Some c)
  show ?thesis
  proof (cases "verifyPage c")
    case None
    with Some show ?thesis
      by (intro exI[of _ "trace w @ [CloseContext (context' c)]"]) (simp add: discard_def io_defs)
  next
    case (Some p)
    with \<open>map_of (sessions w) (email account) = Some c\<close> show ?thesis
      by (intro exI[of _ "trace w @ [ClosePage p, CloseContext (context' c)]"])
         (simp add: discard_def io_defs)
  qed
qed

lemma initLogin_cases:
  assumes "initLogin account env w = (res, w')"
  shows "(cachedValid (map_of (sessions w) (email account)) (l_now env)
            \<and> res = Inr (loggedIn account) \<and> w' = w)
       \<or> (\<not> cachedValid (map_of (sessions w) (email account)) (l_now env)
            \<and> (\<exists>r. res = Inr r)
            \<and> outcome_ok account env (AList.delete (email account) (sessions w)) res (sessions w'))"
proof (cases "cachedValid (map_of (sessions w) (email account)) (l_now env)")
  case True
  with assms show ?thesis by (auto simp add: initLogin_def io_defs)
next
  case False
  obtain t where d: "discard account (map_of (sessions w) (email account)) w =
     (Inr (), w\<lparr>sessions := AList.delete (email account) (sessions w), trace := t\<rparr>)"
    using discard_result by blast
  let ?w1 = "w\<lparr>sessions := AList.delete (email account) (sessions w), trace := t\<rparr>"
  obtain r2 w2 where a: "attempt account env ?w1 = (r2, w2)" by (cases "attempt account env ?w1")
  from attempt_cases[OF a]
  have ok: "outcome_ok account env (AList.delete (email account) (sessions w)) r2 (sessions w2)"
    by simp
  show ?thesis
  proof (cases r2)
    case (Inl e)
    with assms False d a have "res = Inr \<lparr>st_label = label account, st_status = failed,
        st_phone = None, st_error = Some (message e (ascii ''Unknown error''))\<rparr>" "w' = w2"
      by (auto simp add: initLogin_def io_defs)
    moreover from ok Inl have "sessions w2 = AList.delete (email account) (sessions w)"
      by (auto simp add: outcome_ok_def)
    ultimately show ?thesis using False by (simp add: outcome_ok_def)
  next
    case (Inr r)
    with assms False d a have "res = Inr r" "w' = w2"
      by (auto simp add: initLogin_def io_defs)
    with ok Inr False show ?thesis by simp
  qed
qed

subsection \<open>The outcomes of a verification\<close>

lemma submitAttempt_cases:
  assumes "submitAttempt account code env s page w = (res, w')"
  shows "(res = Inr (loggedIn account)
            \<and> sessions w' = AList.update (email account)
                 (s\<lparr>verifyPage := None, status := logged_in,
                    expires := v_now env + SESSION_TTL\<rparr>) (sessions w))
          \<or> ((\<exists>e. res = Inl e) \<and> sessions w' = sessions w)"
  using assms
  by (auto simp add: submitAttempt_def io_defs split: sum.splits if_splits)


lemma submitFailed_cases:
  assumes "submitFailed account env s page e w = (res, w')"
  shows "(includes' (v_urlAfter env) (ascii ''/Account/Verify'')
            \<and> res = Inr \<lparr>st_label = label account, st_status = verification_required,
                         st_phone = phone s,
                         st_error = Some (ascii ''Invalid code, try again'')\<rparr>
            \<and> w' = w\<lparr>trace := trace w @ [Url page]\<rparr>)
       \<or> (\<not> includes' (v_urlAfter env) (ascii ''/Account/Verify'')
            \<and> res = Inr \<lparr>st_label = label account, st_status = failed, st_phone = None,
                         st_error = Some (message e (ascii ''Verification failed''))\<rparr>
            \<and> sessions w' = AList.update (email account)
                 (s\<lparr>verifyPage := None, status := failed,
                    error := Some (message e (ascii ''Verification failed''))\<rparr>) (sessions w))"
  using assms
  by (auto simp add: submitFailed_def io_defs split: sum.splits if_splits)


lemma submit_cases:
  assumes "submitVerificationCode account code env w = (res, w')"
  shows "(res = Inr (noPending account) \<and> w' = w)
       \<or> (\<exists>s page. map_of (sessions w) (email account) = Some s
             \<and> status s = verification_required \<and> verifyPage s = Some page
             \<and> ((res = Inr (loggedIn account)
                   \<and> sessions w' = AList.update (email account)
                        (s\<lparr>verifyPage := None, status := logged_in,
                           expires := v_now env + SESSION_TTL\<rparr>) (sessions w))
                \<or> (res = Inr \<lparr>st_label = label account, st_status = verification_required,
                            st_phone = phone s,
                            st_error = Some (ascii ''Invalid code, try again'')\<rparr>
                   \<and> sessions w' = sessions w)
                \<or> (\<exists>m. res = Inr \<lparr>st_label = label account, st_status = failed,
                            st_phone = None, st_error = Some m\<rparr>
                   \<and> sessions w' = AList.update (email account)
                        (s\<lparr>verifyPage := None, status := failed, error := Some m\<rparr>)
                        (sessions w))))"
proof (cases "map_of (sessions w) (email account)")
  case None
  with assms show ?thesis by (auto simp add: submitVerificationCode_def io_defs)
next
  case (Some s)
  show ?thesis
  proof (cases "status s = verification_required")
    case False
    with assms Some show ?thesis by (auto simp add: submitVerificationCode_def io_defs)
  next
    case True
    show ?thesis
    proof (cases "verifyPage s")
      case None
      with assms Some True show ?thesis
        by (auto simp add: submitVerificationCode_def io_defs)
    next
      case page: (Some page)
      obtain r1 w1 where a: "submitAttempt account code env s page w = (r1, w1)"
        by (cases "submitAttempt account code env s page w")
      show ?thesis
      proof (cases r1)
        case (Inr r)
        with assms Some True page a have "res = Inr r" "w' = w1"
          by (auto simp add: submitVerificationCode_def io_defs)
        with submitAttempt_cases[OF a] Inr Some True page show ?thesis by auto
      next
        case (Inl e)
        with submitAttempt_cases[OF a] have s1: "sessions w1 = sessions w" by auto
        from assms Some True page a Inl
        have f: "submitFailed account env s page e w1 = (res, w')"
          by (auto simp add: submitVerificationCode_def io_defs)
        from submitFailed_cases[OF f] s1 Some True page show ?thesis by auto
      qed
    qed
  qed
qed

subsection \<open>Reading the status\<close>

text \<open>
  C1, as the code has it. A stored session whose expiry is at or before the current
  time is reported as \<open>not_started\<close> when its stored state is \<open>logged_in\<close>; in any
  other stored state the stored state, phone hint and error are reported as they are.
  In both cases the call returns (it does not throw) and leaves the whole state,
  the session store included, as it was.
\<close>

theorem getSessionStatus_expired:
  assumes "map_of (sessions w) (email account) = Some s"
    and "expires s \<le> now"
  shows "getSessionStatus account now w =
           (Inr \<lparr>st_label = label account,
                 st_status = (if status s = logged_in then not_started else status s),
                 st_phone = (if status s = logged_in then None else phone s),
                 st_error = (if status s = logged_in then None else error s)\<rparr>, w)"
  using assms
  by (simp add: getSessionStatus_def bindM_def sessions_get_def returnM_def)

text \<open>
  The property at a session that was logged in and has expired: the read reports
  \<open>not_started\<close> and the store still holds the session.
\<close>

theorem getSessionStatus_expired_witness:
  "map_of [(email personal, activeSession)] (email personal) = Some activeSession
   \<and> expires activeSession \<le> 1000
   \<and> getSessionStatus personal 1000
        \<lparr>sessions = [(email personal, activeSession)], trace = []\<rparr> =
       (Inr \<lparr>st_label = label personal, st_status = not_started,
             st_phone = None, st_error = None\<rparr>,
        \<lparr>sessions = [(email personal, activeSession)], trace = []\<rparr>)"
  using getSessionStatus_expired
          [of "\<lparr>sessions = [(email personal, activeSession)], trace = []\<rparr>"
              personal activeSession 1000]
  by (simp add: activeSession_def)

text \<open>
  C1 as stated fails: a session waiting for its verification code, with its expiry
  (500) before the current time (1000), is reported as \<open>verification_required\<close>, not
  as \<open>not_started\<close>.
\<close>

theorem getSessionStatus_expired_counterexample:
  "expires pendingSession \<le> 1000
   \<and> fst (getSessionStatus personal 1000
             \<lparr>sessions = [(email personal, pendingSession)], trace = []\<rparr>) =
       Inr \<lparr>st_label = label personal, st_status = verification_required,
            st_phone = Some (ascii ''*** *** 123''), st_error = None\<rparr>"
  by (simp add: getSessionStatus_def bindM_def sessions_get_def returnM_def
        pendingSession_def)

subsection \<open>The guards of scraping\<close>

text \<open>
  C4. Without a session for the account, or with one that is not \<open>logged_in\<close>,
  \<open>scrapePrice\<close> throws the error "No active session for", the account's label,
  ". Call /auth/init first." and leaves the state as it was: no call on the browser
  is made. With a \<open>logged_in\<close> session whose expiry is at or before the current time
  it deletes the account's record from the store and throws "Session expired for",
  the label, ". Call /auth/init to re-login.", again without a call on the browser;
  the store then has no record for the account, and a read of the status, at any
  time, reports \<open>not_started\<close>.
\<close>

theorem scrapePrice_guards:
  "((map_of (sessions w) (email account) = None
      \<or> (\<exists>s. map_of (sessions w) (email account) = Some s \<and> status s \<noteq> logged_in))
     \<longrightarrow> scrapePrice lib account url env w =
          (Inl (Error (ascii ''No active session for '' @ label account
                         @ ascii ''. Call /auth/init first.'')), w))
   \<and> ((\<exists>s. map_of (sessions w) (email account) = Some s \<and> status s = logged_in
            \<and> expires s \<le> s_now env)
     \<longrightarrow> scrapePrice lib account url env w =
          (Inl (Error (ascii ''Session expired for '' @ label account
                         @ ascii ''. Call /auth/init to re-login.'')),
           w\<lparr>sessions := AList.delete (email account) (sessions w)\<rparr>)
        \<and> trace (snd (scrapePrice lib account url env w)) = trace w
        \<and> map_of (sessions (snd (scrapePrice lib account url env w))) (email account) = None
        \<and> fst (getSessionStatus account now (snd (scrapePrice lib account url env w))) =
            Inr \<lparr>st_label = label account, st_status = not_started,
                  st_phone = None, st_error = None\<rparr>)"
  by (auto simp add: scrapePrice_def getSessionStatus_def io_defs noActiveSession_def
        sessionExpired_def map_of_delete_same)

text \<open>
  The property on an account without a session, on one whose session waits for its
  verification code, and on one whose \<open>logged_in\<close> session has expired.
\<close>

theorem scrapePrice_guards_witness:
  "scrapePrice blankLib personal (ascii ''https://www.alza.cz/p'') smoothScrape emptyWorld =
     (Inl (Error (ascii ''No active session for Personal. Call /auth/init first.'')),
      emptyWorld)
   \<and> scrapePrice blankLib personal (ascii ''https://www.alza.cz/p'') smoothScrape
        \<lparr>sessions = [(email personal, pendingSession)], trace = []\<rparr> =
     (Inl (Error (ascii ''No active session for Personal. Call /auth/init first.'')),
      \<lparr>sessions = [(email personal, pendingSession)], trace = []\<rparr>)
   \<and> scrapePrice blankLib personal (ascii ''https://www.alza.cz/p'') smoothScrape
        \<lparr>sessions = [(email personal, activeSession)], trace = []\<rparr> =
     (Inl (Error (ascii ''Session expired for Personal. Call /auth/init to re-login.'')),
      emptyWorld)"
  using scrapePrice_guards
          [of emptyWorld personal blankLib "ascii ''https://www.alza.cz/p''" smoothScrape 0]
        scrapePrice_guards
          [of "\<lparr>sessions = [(email personal, pendingSession)], trace = []\<rparr>" personal
              blankLib "ascii ''https://www.alza.cz/p''" smoothScrape 0]
        scrapePrice_guards
          [of "\<lparr>sessions = [(email personal, activeSession)], trace = []\<rparr>" personal
              blankLib "ascii ''https://www.alza.cz/p''" smoothScrape 0]
  by (simp add: emptyWorld_def personal_def pendingSession_def activeSession_def
        smoothScrape_def ascii_def)

subsection \<open>A rejected verification code\<close>



subsection \<open>The scenarios, run\<close>

lemma run_smooth:
  "initLogin personal smoothLogin emptyWorld = (Inr (loggedIn personal), afterPersonal)"
  by (simp add: login_defs io_defs scenario_defs ascii_def)

lemma run_blocked:
  "initLogin personal blockedLogin emptyWorld =
     (Inr \<lparr>st_label = label personal, st_status = failed, st_phone = None,
           st_error = Some (ascii ''Cloudflare did not resolve within 120s'')\<rparr>,
      \<lparr>sessions = [], trace = [EnsureBrowser]\<rparr>)"
  by (simp add: login_defs io_defs scenario_defs)

lemma run_second:
  "snd (initLogin business smoothLogin afterPersonal) =
     \<lparr>sessions = sessions afterPersonal @
        [(email business,
          \<lparr>context' = 0, status = logged_in, phone = None, error = None,
           verifyPage = None, expires = 609000\<rparr>)],
      trace = trace afterPersonal @
        [EnsureBrowser, Contexts, NewPage 0, Goto 2 loginUrl, WaitForCloudflare 2, Title 2,
         WaitForSelector 2 (ascii ''#userName''), Click 2 (ascii ''#userName''),
         Fill 2 (ascii ''#userName'') (email business),
         Click 2 (ascii ''#password''), Fill 2 (ascii ''#password'') (password business),
         Click 2 submitButton, WaitForTimeout 2, Url 2, ClosePage 2]\<rparr>"
  by (simp add: login_defs io_defs scenario_defs ascii_def)

lemma run_accepted:
  "submitVerificationCode personal (ascii ''123456'') acceptedCode pendingWorld =
     (Inr (loggedIn personal),
      \<lparr>sessions = [(email personal,
                     pendingSession\<lparr>verifyPage := None, status := logged_in,
                                     expires := 609000\<rparr>)],
       trace = [Url 1, WaitForSelector 1 (ascii ''#code''),
                Fill 1 (ascii ''#code'') (ascii ''123456''), WaitForURL 1, ClosePage 1]\<rparr>)"
  by (simp add: verify_defs login_defs io_defs scenario_defs ascii_def)

lemma run_lost:
  "submitVerificationCode personal (ascii ''123456'') lostPage pendingWorld =
     (Inr \<lparr>st_label = label personal, st_status = failed, st_phone = None,
           st_error = Some (ascii ''Timeout 30000ms exceeded'')\<rparr>,
      \<lparr>sessions = [(email personal,
                     pendingSession\<lparr>verifyPage := None, status := failed,
                                     error := Some (ascii ''Timeout 30000ms exceeded'')\<rparr>)],
       trace = [Url 1, WaitForSelector 1 (ascii ''#code''),
                Fill 1 (ascii ''#code'') (ascii ''123456''), WaitForURL 1, Url 1,
                ClosePage 1]\<rparr>)"
  by (simp add: verify_defs login_defs io_defs scenario_defs ascii_def)

subsection \<open>The expiry of a session that becomes logged in\<close>

text \<open>
  C5. Whenever \<open>initLogin\<close> or \<open>submitVerificationCode\<close> changes the store and leaves
  the account's session in \<open>logged_in\<close>, that session's expiry is the value of
  \<open>Date.now()\<close> at the write plus 600000 ms. And the session is indeed written: when
  \<open>initLogin\<close> returns \<open>logged_in\<close> other than for a cached session that is still
  valid (after the direct or the delayed redirect), and when \<open>submitVerificationCode\<close>
  returns \<open>logged_in\<close>, the store holds a \<open>logged_in\<close> session for the account with
  that expiry.
\<close>

theorem logged_in_expiry:
  "(initLogin account env w = (res, w') \<and> sessions w' \<noteq> sessions w
      \<and> map_of (sessions w') (email account) = Some s' \<and> status s' = logged_in
     \<longrightarrow> expires s' = l_nowSet env + 600000)
   \<and> (initLogin account env w = (Inr r, w') \<and> st_status r = logged_in
      \<and> \<not> cachedValid (map_of (sessions w) (email account)) (l_now env)
     \<longrightarrow> (\<exists>c. map_of (sessions w') (email account) =
               Some \<lparr>context' = c, status = logged_in, phone = None, error = None,
                     verifyPage = None, expires = l_nowSet env + 600000\<rparr>))
   \<and> (submitVerificationCode account code venv v = (resv, v') \<and> sessions v' \<noteq> sessions v
      \<and> map_of (sessions v') (email account) = Some sv \<and> status sv = logged_in
     \<longrightarrow> expires sv = v_now venv + 600000)
   \<and> (submitVerificationCode account code venv v = (Inr rv, v') \<and> st_status rv = logged_in
     \<longrightarrow> (\<exists>s. map_of (sessions v') (email account) = Some s \<and> status s = logged_in
              \<and> expires s = v_now venv + 600000))"
proof -
  have c1: "initLogin account env w = (res, w') \<and> sessions w' \<noteq> sessions w
      \<and> map_of (sessions w') (email account) = Some s' \<and> status s' = logged_in
     \<longrightarrow> expires s' = l_nowSet env + 600000"
  proof
    assume a: "initLogin account env w = (res, w') \<and> sessions w' \<noteq> sessions w
      \<and> map_of (sessions w') (email account) = Some s' \<and> status s' = logged_in"
    then have "outcome_ok account env (AList.delete (email account) (sessions w)) res
                 (sessions w')"
      using initLogin_cases[of account env w res w'] by auto
    with a show "expires s' = l_nowSet env + 600000"
      by (auto simp add: outcome_ok_def map_of_update_same map_of_delete_same SESSION_TTL_def)
  qed
  have c2: "initLogin account env w = (Inr r, w') \<and> st_status r = logged_in
      \<and> \<not> cachedValid (map_of (sessions w) (email account)) (l_now env)
     \<longrightarrow> (\<exists>c. map_of (sessions w') (email account) =
               Some \<lparr>context' = c, status = logged_in, phone = None, error = None,
                     verifyPage = None, expires = l_nowSet env + 600000\<rparr>)"
  proof
    assume a: "initLogin account env w = (Inr r, w') \<and> st_status r = logged_in
      \<and> \<not> cachedValid (map_of (sessions w) (email account)) (l_now env)"
    then have "outcome_ok account env (AList.delete (email account) (sessions w)) (Inr r)
                 (sessions w')"
      using initLogin_cases[of account env w "Inr r" w'] by auto
    with a show "\<exists>c. map_of (sessions w') (email account) =
               Some \<lparr>context' = c, status = logged_in, phone = None, error = None,
                     verifyPage = None, expires = l_nowSet env + 600000\<rparr>"
      by (auto simp add: outcome_ok_def map_of_update_same SESSION_TTL_def)
  qed
  have c3: "submitVerificationCode account code venv v = (resv, v')
      \<and> sessions v' \<noteq> sessions v
      \<and> map_of (sessions v') (email account) = Some sv \<and> status sv = logged_in
     \<longrightarrow> expires sv = v_now venv + 600000"
  proof
    assume a: "submitVerificationCode account code venv v = (resv, v')
      \<and> sessions v' \<noteq> sessions v
      \<and> map_of (sessions v') (email account) = Some sv \<and> status sv = logged_in"
    with submit_cases[of account code venv v resv v']
    show "expires sv = v_now venv + 600000"
      by (auto simp add: map_of_update_same SESSION_TTL_def)
  qed
  have c4: "submitVerificationCode account code venv v = (Inr rv, v')
      \<and> st_status rv = logged_in
     \<longrightarrow> (\<exists>s. map_of (sessions v') (email account) = Some s \<and> status s = logged_in
              \<and> expires s = v_now venv + 600000)"
  proof
    assume a: "submitVerificationCode account code venv v = (Inr rv, v')
      \<and> st_status rv = logged_in"
    with submit_cases[of account code venv v "Inr rv" v']
    show "\<exists>s. map_of (sessions v') (email account) = Some s \<and> status s = logged_in
              \<and> expires s = v_now venv + 600000"
      by (auto simp add: map_of_update_same SESSION_TTL_def noPending_def)
  qed
  from c1 c2 c3 c4 show ?thesis by blast
qed

text \<open>
  The property on \<open>personal\<close>: logging in from the empty state with a direct redirect,
  the clock at 9000 when the session is stored, and then, from the state that waits
  for a code, the code accepted with the clock at 9000. Both sessions expire at 609000.
\<close>

theorem logged_in_expiry_witness:
  "initLogin personal smoothLogin emptyWorld = (Inr (loggedIn personal), afterPersonal)
   \<and> sessions afterPersonal \<noteq> sessions emptyWorld
   \<and> \<not> cachedValid (map_of (sessions emptyWorld) (email personal)) (l_now smoothLogin)
   \<and> l_nowSet smoothLogin = 9000
   \<and> map_of (sessions afterPersonal) (email personal) =
       Some \<lparr>context' = 0, status = logged_in, phone = None, error = None,
             verifyPage = None, expires = 609000\<rparr>
   \<and> v_now acceptedCode = 9000
   \<and> (\<exists>s. map_of (sessions (snd (submitVerificationCode personal (ascii ''123456'')
                                    acceptedCode pendingWorld))) (email personal) = Some s
          \<and> status s = logged_in \<and> expires s = 609000)"
  using logged_in_expiry
          [where account = personal and env = smoothLogin and w = emptyWorld
             and res = "Inr (loggedIn personal)" and w' = afterPersonal
             and r = "loggedIn personal"
             and s' = "\<lparr>context' = 0, status = logged_in, phone = None, error = None,
                        verifyPage = None, expires = 609000\<rparr>"
             and code = "ascii ''123456''" and venv = acceptedCode and v = pendingWorld
             and resv = "Inr (loggedIn personal)"
             and v' = "snd (submitVerificationCode personal (ascii ''123456'')
                              acceptedCode pendingWorld)"
             and rv = "loggedIn personal"
             and sv = "pendingSession\<lparr>verifyPage := None, status := logged_in,
                                        expires := 609000\<rparr>"]
        run_smooth run_accepted
  by (simp add: scenario_defs cachedValid_def loggedIn_def)

subsection \<open>Failures of the login and of the verification\<close>

text \<open>
  C2, as the code has it. \<open>initLogin\<close> and \<open>submitVerificationCode\<close> never throw: every
  run returns a status. When \<open>initLogin\<close> returns \<open>failed\<close>, the status carries an
  error message and the store holds no record for the account, so a read of the status
  reports \<open>not_started\<close>. When \<open>submitVerificationCode\<close> returns \<open>failed\<close>, the status
  carries an error message, and either no verification was pending and the state is
  as it was, or the account's record is now \<open>failed\<close> with that message in its error
  field and its page released, and a read of the status reports \<open>failed\<close> with that
  message.
\<close>

theorem login_failures_returned:
  "(\<exists>r w'. initLogin account env w = (Inr r, w'))
   \<and> (initLogin account env w = (Inr r, w') \<and> st_status r = failed
       \<longrightarrow> st_error r \<noteq> None
           \<and> map_of (sessions w') (email account) = None
           \<and> fst (getSessionStatus account now w') =
               Inr \<lparr>st_label = label account, st_status = not_started,
                    st_phone = None, st_error = None\<rparr>)
   \<and> (\<exists>r v'. submitVerificationCode account code venv v = (Inr r, v'))
   \<and> (submitVerificationCode account code venv v = (Inr rv, v') \<and> st_status rv = failed
       \<longrightarrow> (st_error rv = Some (ascii ''No pending verification for this account'')
               \<and> v' = v)
           \<or> (\<exists>s m. st_error rv = Some m
                 \<and> map_of (sessions v') (email account) = Some s
                 \<and> status s = failed \<and> error s = Some m \<and> verifyPage s = None
                 \<and> fst (getSessionStatus account now v') =
                     Inr \<lparr>st_label = label account, st_status = failed,
                          st_phone = phone s, st_error = Some m\<rparr>))"
proof -
  have c1: "\<exists>r w'. initLogin account env w = (Inr r, w')"
  proof -
    obtain res w' where run: "initLogin account env w = (res, w')"
      by (cases "initLogin account env w")
    from initLogin_cases[OF run] obtain r where "res = Inr r" by auto
    with run show ?thesis by blast
  qed
  have c2: "initLogin account env w = (Inr r, w') \<and> st_status r = failed
       \<longrightarrow> st_error r \<noteq> None
           \<and> map_of (sessions w') (email account) = None
           \<and> fst (getSessionStatus account now w') =
               Inr \<lparr>st_label = label account, st_status = not_started,
                    st_phone = None, st_error = None\<rparr>"
  proof
    assume a: "initLogin account env w = (Inr r, w') \<and> st_status r = failed"
    then have "outcome_ok account env (AList.delete (email account) (sessions w)) (Inr r)
                 (sessions w')"
      using initLogin_cases[of account env w "Inr r" w'] by (auto simp add: loggedIn_def)
    with a have "st_error r \<noteq> None
                 \<and> sessions w' = AList.delete (email account) (sessions w)"
      by (auto simp add: outcome_ok_def loggedIn_def)
    then show "st_error r \<noteq> None
           \<and> map_of (sessions w') (email account) = None
           \<and> fst (getSessionStatus account now w') =
               Inr \<lparr>st_label = label account, st_status = not_started,
                    st_phone = None, st_error = None\<rparr>"
      by (simp add: map_of_delete_same getSessionStatus_def io_defs)
  qed
  have c3: "\<exists>r v'. submitVerificationCode account code venv v = (Inr r, v')"
  proof -
    obtain res v' where run: "submitVerificationCode account code venv v = (res, v')"
      by (cases "submitVerificationCode account code venv v")
    from submit_cases[OF run] obtain r where "res = Inr r" by auto
    with run show ?thesis by blast
  qed
  have c4: "submitVerificationCode account code venv v = (Inr rv, v')
       \<and> st_status rv = failed
       \<longrightarrow> (st_error rv = Some (ascii ''No pending verification for this account'')
               \<and> v' = v)
           \<or> (\<exists>s m. st_error rv = Some m
                 \<and> map_of (sessions v') (email account) = Some s
                 \<and> status s = failed \<and> error s = Some m \<and> verifyPage s = None
                 \<and> fst (getSessionStatus account now v') =
                     Inr \<lparr>st_label = label account, st_status = failed,
                          st_phone = phone s, st_error = Some m\<rparr>)"
  proof
    assume a: "submitVerificationCode account code venv v = (Inr rv, v')
       \<and> st_status rv = failed"
    with submit_cases[of account code venv v "Inr rv" v']
    show "(st_error rv = Some (ascii ''No pending verification for this account'')
               \<and> v' = v)
           \<or> (\<exists>s m. st_error rv = Some m
                 \<and> map_of (sessions v') (email account) = Some s
                 \<and> status s = failed \<and> error s = Some m \<and> verifyPage s = None
                 \<and> fst (getSessionStatus account now v') =
                     Inr \<lparr>st_label = label account, st_status = failed,
                          st_phone = phone s, st_error = Some m\<rparr>)"
      by (auto simp add: map_of_update_same noPending_def loggedIn_def
            getSessionStatus_def io_defs)
  qed
  from c1 c2 c3 c4 show ?thesis by blast
qed

text \<open>
  The property on \<open>personal\<close>: a login that fails because the browser cannot be created
  leaves no record, and a verification whose page has left the verification path leaves
  a \<open>failed\<close> record with the message of the timeout.
\<close>

theorem login_failures_returned_witness:
  "initLogin personal blockedLogin emptyWorld =
     (Inr \<lparr>st_label = label personal, st_status = failed, st_phone = None,
           st_error = Some (ascii ''Cloudflare did not resolve within 120s'')\<rparr>,
      \<lparr>sessions = [], trace = [EnsureBrowser]\<rparr>)
   \<and> map_of (sessions \<lparr>sessions = [], trace = [EnsureBrowser]\<rparr>) (email personal) = None
   \<and> st_status (projr (fst (submitVerificationCode personal (ascii ''123456'') lostPage
                              pendingWorld))) = failed
   \<and> (\<exists>s. map_of (sessions (snd (submitVerificationCode personal (ascii ''123456'')
                                    lostPage pendingWorld))) (email personal) = Some s
          \<and> status s = failed \<and> error s = Some (ascii ''Timeout 30000ms exceeded'')
          \<and> verifyPage s = None)"
  using login_failures_returned
          [where account = personal and env = blockedLogin and w = emptyWorld
             and r = "\<lparr>st_label = label personal, st_status = failed, st_phone = None,
                       st_error = Some (ascii ''Cloudflare did not resolve within 120s'')\<rparr>"
             and w' = "\<lparr>sessions = [], trace = [EnsureBrowser]\<rparr>"
             and now = 10000
             and code = "ascii ''123456''" and venv = lostPage and v = pendingWorld
             and rv = "\<lparr>st_label = label personal, st_status = failed, st_phone = None,
                        st_error = Some (ascii ''Timeout 30000ms exceeded'')\<rparr>"
             and v' = "snd (submitVerificationCode personal (ascii ''123456'') lostPage
                              pendingWorld)"]
        run_blocked run_lost
  by simp

text \<open>
  C2 as stated fails: the login of \<open>personal\<close> returns \<open>failed\<close> with an error message,
  and the read of the status that follows reports \<open>not_started\<close> without an error.
\<close>

theorem login_failures_returned_counterexample:
  "fst (initLogin personal blockedLogin emptyWorld) =
     Inr \<lparr>st_label = label personal, st_status = failed, st_phone = None,
          st_error = Some (ascii ''Cloudflare did not resolve within 120s'')\<rparr>
   \<and> fst (getSessionStatus personal 10000 (snd (initLogin personal blockedLogin emptyWorld))) =
     Inr \<lparr>st_label = label personal, st_status = not_started, st_phone = None,
          st_error = None\<rparr>"
  by (simp add: run_blocked getSessionStatus_def io_defs)

subsection \<open>The browsing context of a second account\<close>

text \<open>
  C3 does not hold of the code. \<open>personal\<close> has logged in, so the store is not empty,
  and the browser reports its default context, 0. The login of \<open>business\<close> does not
  ask the browser for a new context: it opens a new page in context 0, and the session
  it stores for \<open>business\<close> holds context 0, the context of the session of \<open>personal\<close>.
\<close>

theorem second_account_shares_context:
  "sessions afterPersonal \<noteq> [] \<and> l_defaultCtx smoothLogin = Some 0
   \<and> map_of (sessions (snd (initLogin business smoothLogin afterPersonal))) (email personal) =
       Some \<lparr>context' = 0, status = logged_in, phone = None, error = None,
             verifyPage = None, expires = 609000\<rparr>
   \<and> map_of (sessions (snd (initLogin business smoothLogin afterPersonal))) (email business) =
       Some \<lparr>context' = 0, status = logged_in, phone = None, error = None,
             verifyPage = None, expires = 609000\<rparr>
   \<and> NewContext \<notin> set (trace (snd (initLogin business smoothLogin afterPersonal)))
   \<and> NewPage 0 \<in> set (trace (snd (initLogin business smoothLogin afterPersonal)))"
  by (simp add: run_second) (simp add: scenario_defs ascii_def)

subsection \<open>Normalizing a number\<close>



















subsection \<open>Formatting and normalizing\<close>

lemma isDigit_not_space: "isDigit c \<Longrightarrow> \<not> isSpace c"
  by (auto simp add: isDigit_def isSpace_def)

lemma decimalDigits_digits: "\<forall>c\<in>set (decimalDigits n). isDigit c"
proof (induction n rule: decimalDigits.induct)
  case (1 n)
  show ?case
  proof (cases "n < 10")
    case True
    then show ?thesis by (subst decimalDigits.simps) (simp add: isDigit_def)
  next
    case False
    have "n mod 10 < 10" by simp
    then have "isDigit (48 + n mod 10)" unfolding isDigit_def by linarith
    with False 1 show ?thesis by (subst decimalDigits.simps) simp
  qed
qed

lemma decimalDigits_nonempty: "decimalDigits n \<noteq> []"
  by (subst decimalDigits.simps) simp

lemma digitsValue_snoc: "digitsValue (xs @ [c]) = 10 * digitsValue xs + (c - 48)"
  by (simp add: digitsValue_def)

lemma digitsValue_decimalDigits: "digitsValue (decimalDigits n) = n"
proof (induction n rule: decimalDigits.induct)
  case (1 n)
  show ?case
  proof (cases "n < 10")
    case True
    then show ?thesis by (subst decimalDigits.simps) (simp add: digitsValue_def)
  next
    case False
    with 1 show ?thesis
      by (subst decimalDigits.simps) (simp add: digitsValue_snoc)
  qed
qed

lemma groups_filter:
  "\<forall>c\<in>set ds. \<not> isSpace c \<Longrightarrow> filter (\<lambda>c. \<not> isSpace c) (groups ds) = ds"
proof (induction ds rule: groups.induct)
  case (1 ds)
  show ?case
  proof (cases "length ds \<le> 3")
    case True
    with 1(2) show ?thesis by (subst groups.simps) (simp add: filter_id_conv)
  next
    case False
    have t: "\<forall>c\<in>set (take (length ds - 3) ds). \<not> isSpace c"
      using 1(2) by (meson in_set_takeD)
    have d: "\<forall>c\<in>set (drop (length ds - 3) ds). \<not> isSpace c"
      using 1(2) by (meson in_set_dropD)
    have "filter (\<lambda>c. \<not> isSpace c) (groups ds) =
          filter (\<lambda>c. \<not> isSpace c) (groups (take (length ds - 3) ds))
          @ filter (\<lambda>c. \<not> isSpace c) [0xA0]
          @ filter (\<lambda>c. \<not> isSpace c) (drop (length ds - 3) ds)"
      using False by (subst groups.simps) simp
    also have "\<dots> = take (length ds - 3) ds @ [] @ drop (length ds - 3) ds"
      using 1(1)[OF False t] d by (simp add: filter_id_conv isSpace_def)
    finally show ?thesis by simp
  qed
qed

lemma groups_set: "set (groups ds) \<subseteq> set ds \<union> {0xA0}"
proof (induction ds rule: groups.induct)
  case (1 ds)
  show ?case
  proof (cases "length ds \<le> 3")
    case True
    then show ?thesis by (subst groups.simps) auto
  next
    case False
    have "set (groups ds) = set (groups (take (length ds - 3) ds)) \<union> {0xA0}
            \<union> set (drop (length ds - 3) ds)"
      using False by (subst groups.simps) auto
    moreover have "set (take (length ds - 3) ds) \<subseteq> set ds" by (rule set_take_subset)
    moreover have "set (drop (length ds - 3) ds) \<subseteq> set ds" by (rule set_drop_subset)
    ultimately show ?thesis using 1[OF False] by auto
  qed
qed

lemma currency_skip:
  assumes "\<forall>c\<in>set xs. c \<notin> {75, 107, 67, 99, 38}"
  shows "replaceAll re_currency [] (xs @ ys) = xs @ replaceAll re_currency [] ys"
  using assms
proof (induction xs)
  case Nil
  then show ?case by simp
next
  case (Cons c cs)
  then have c: "c \<noteq> 75" "c \<noteq> 107" "c \<noteq> 67" "c \<noteq> 99" "c \<noteq> 38" by auto
  have "matchAlts re_currency (c # (cs @ ys)) = None"
    using c by (auto simp add: re_currency_def liti_def canonicalize_def split: if_splits)
  with Cons show ?case by simp
qed

lemma currency_marker: "replaceAll re_currency [] (ascii '' K'' @ [ccaron]) = [32]"
  by (simp add: re_currency_def liti_def canonicalize_def ascii_def ccaron_def)

lemma space_filter: "replaceAll re_space [] s = filter (\<lambda>c. \<not> isSpace c) s"
  by (induction s) (simp_all add: re_space_def)

lemma comma_map: "replaceAll re_comma (ascii ''.'') s = map (\<lambda>c. if c = 44 then 46 else c) s"
  by (induction s) (simp_all add: re_comma_def lit_def ascii_def)

lemma no_dash_no_match:
  "\<forall>c\<in>set s. c \<noteq> 45 \<and> c \<noteq> enDash \<Longrightarrow> search re_trailingDash s = None"
  by (induction s) (simp_all add: re_trailingDash_def)

lemma trim_id:
  assumes "s \<noteq> []" "\<not> isSpace (hd s)" "\<not> isSpace (last s)"
  shows "trim s = s"
proof -
  have 1: "dropWhile isSpace s = s"
    using assms(1,2) by (simp add: dropWhile_eq_self_iff)
  have 2: "dropWhile isSpace (rev s) = rev s"
    using assms(1,3) by (simp add: dropWhile_eq_self_iff hd_rev)
  show ?thesis by (simp add: trim_def 1 2)
qed


lemma digitsValue_append:
  "digitsValue (xs @ ys) = digitsValue xs * 10 ^ length ys + digitsValue ys"
proof (induction ys rule: rev_induct)
  case Nil
  then show ?case by (simp add: digitsValue_def)
next
  case (snoc y ys)
  have "digitsValue (xs @ ys @ [y]) = 10 * digitsValue (xs @ ys) + (y - 48)"
    using digitsValue_snoc[of "xs @ ys" y] by simp
  also have "\<dots> = 10 * (digitsValue xs * 10 ^ length ys + digitsValue ys) + (y - 48)"
    using snoc by simp
  also have "\<dots> = digitsValue xs * 10 ^ length (ys @ [y]) + digitsValue (ys @ [y])"
    by (simp add: digitsValue_snoc algebra_simps)
  finally show ?case by simp
qed

lemma parseFloat_plain:
  assumes D: "D \<noteq> []" "\<forall>c\<in>set D. isDigit c"
    and fp: "\<forall>c\<in>set fp. isDigit c"
    and F: "F = (if fp = [] then [] else 46 # fp)"
  shows "parseFloat (D @ F) = toNumber (of_nat (digitsValue (D @ fp)) / 10 ^ length fp)"
proof -
  obtain d ds where dd: "D = d # ds" using D(1) by (cases D) auto
  then have d: "isDigit d" using D(2) by simp
  then have dn: "\<not> isSpace d" "d \<noteq> 45" "d \<noteq> 43" "d \<noteq> 73"
    by (auto simp add: isDigit_def isSpace_def)
  have pf: "parseFloat (D @ F) = unsignedLiteral (D @ F)"
    using dd dn by (simp add: parseFloat_def)
  have inf: "\<not> startsWith (D @ F) (ascii ''Infinity'')"
    using dd dn by (simp add: ascii_def)
  have Fd: "takeWhile isDigit F = []" "dropWhile isDigit F = F"
    using F by (auto simp add: isDigit_def)
  have tw: "takeWhile isDigit (D @ F) = D"
    using D(2) Fd by (simp add: takeWhile_append2)
  have dw: "dropWhile isDigit (D @ F) = F"
    using D(2) Fd by (simp add: dropWhile_append2)
  have tl1: "takeWhile isDigit fp = fp" using fp by (simp add: takeWhile_eq_all_conv)
  have tl2: "dropWhile isDigit fp = []" using fp by simp
  show ?thesis
  proof (cases "fp = []")
    case True
    then have F0: "F = []" using F by simp
    have tw0: "takeWhile isDigit D = D" using D(2) by (simp add: takeWhile_eq_all_conv)
    have dw0: "dropWhile isDigit D = []" using D(2) by simp
    have inf0: "\<not> startsWith D (ascii ''Infinity'')" using inf F0 by simp
    have "unsignedLiteral D = toNumber (of_nat (digitsValue D))"
      using D(1) inf0
      by (simp add: unsignedLiteral_def Let_def exponentPart_def scale10_def tw0 dw0)
    with pf F0 True show ?thesis by simp
  next
    case False
    then have Fc: "F = 46 # fp" using F by simp
    have st: "startsWith (46 # fp) (ascii ''.'')" by (simp add: ascii_def)
    have twc: "takeWhile isDigit (D @ 46 # fp) = D"
      using D(2) by (simp add: takeWhile_append2 isDigit_def)
    have dwc: "dropWhile isDigit (D @ 46 # fp) = 46 # fp"
      using D(2) by (simp add: dropWhile_append2 isDigit_def)
    have infc: "\<not> startsWith (D @ 46 # fp) (ascii ''Infinity'')" using inf Fc by simp
    have "unsignedLiteral (D @ 46 # fp) =
            toNumber (scale10 (of_nat (digitsValue (D @ fp))) (0 - int (length fp)))"
      using infc D(1) False
      by (simp add: unsignedLiteral_def Let_def exponentPart_def twc dwc st tl1 tl2)
    then have "unsignedLiteral (D @ F) =
            toNumber (scale10 (of_nat (digitsValue (D @ fp))) (0 - int (length fp)))"
      using Fc by simp
    moreover have "scale10 (of_nat (digitsValue (D @ fp))) (0 - int (length fp)) =
            of_nat (digitsValue (D @ fp)) / 10 ^ length fp"
      using False by (simp add: scale10_def)
    ultimately show ?thesis using pf by simp
  qed
qed


lemma floor_half: "\<lfloor>rat_of_nat k + 1 / 2\<rfloor> = int k"
  by (rule floor_unique) simp_all

lemma toLocaleString_hundredths:
  "toLocaleString (Num (of_nat k / 100)) =
     groups (decimalDigits (k div 100)) @ fraction (k mod 100)"
proof -
  have "\<bar>rat_of_nat k / 100\<bar> * 100 + 1 / 2 = rat_of_nat k + 1 / 2" by simp
  then have "nat \<lfloor>\<bar>rat_of_nat k / 100\<bar> * 100 + 1 / 2\<rfloor> = k"
    using floor_half[of k] by simp
  moreover have "\<not> rat_of_nat k / 100 < 0" by simp
  ultimately show ?thesis by (simp add: toLocaleString_def Let_def)
qed

lemma fraction_shape:
  "fraction f = (if fractionDigits f = [] then [] else 44 # fractionDigits f)"
  by (simp add: fraction_def fractionDigits_def)

lemma fractionDigits_digits: "f < 100 \<Longrightarrow> \<forall>c\<in>set (fractionDigits f). isDigit c"
  by (auto simp add: fractionDigits_def isDigit_def)

lemma one_digit:
  "rat_of_nat (digitsValue (D @ [48 + a])) / 10 =
   rat_of_nat (digitsValue D) + rat_of_nat (10 * a) / 100"
  by (simp add: digitsValue_snoc add_divide_distrib)

lemma two_digits:
  "rat_of_nat (digitsValue (D @ [48 + a, 48 + b])) / 100 =
   rat_of_nat (digitsValue D) + rat_of_nat (10 * a + b) / 100"
proof -
  have "digitsValue (D @ [48 + a, 48 + b]) = 100 * digitsValue D + (10 * a + b)"
    using digitsValue_snoc[of "D @ [48 + a]" "48 + b"] digitsValue_snoc[of D "48 + a"]
    by simp
  then show ?thesis by (simp add: add_divide_distrib)
qed

lemma fractionDigits_value:
  assumes "f < 100"
  shows "rat_of_nat (digitsValue (D @ fractionDigits f)) / 10 ^ length (fractionDigits f) =
         rat_of_nat (digitsValue D) + rat_of_nat f / 100"
proof (cases "f = 0")
  case True
  then show ?thesis by (simp add: fractionDigits_def)
next
  case f0: False
  show ?thesis
  proof (cases "f mod 10 = 0")
    case True
    then have f: "10 * (f div 10) = f" by presburger
    from True f0 have "fractionDigits f = [48 + f div 10]" by (simp add: fractionDigits_def)
    then show ?thesis using one_digit[of D "f div 10"] f by simp
  next
    case False
    have f: "10 * (f div 10) + f mod 10 = f" by simp
    from False f0 have "fractionDigits f = [48 + f div 10, 48 + f mod 10]"
      by (simp add: fractionDigits_def)
    then show ?thesis using two_digits[of D "f div 10" "f mod 10"] f by simp
  qed
qed


lemma hundredths_split:
  "rat_of_nat (k div 100) + rat_of_nat (k mod 100) / 100 = rat_of_nat k / 100"
proof -
  have "100 * (k div 100) + k mod 100 = k" by simp
  then have "rat_of_nat k = 100 * rat_of_nat (k div 100) + rat_of_nat (k mod 100)"
    by (metis of_nat_add of_nat_mult of_nat_numeral)
  then show ?thesis by (simp add: add_divide_distrib)
qed

lemma toNumber_in_range:
  assumes "0 < k" "rat_of_nat k / 100 < overflowBound"
  shows "toNumber (rat_of_nat k / 100) = Num (rat_of_nat k / 100)"
proof -
  have "(2::rat) ^ 7 \<le> 2 ^ 1075" by (rule power_increasing) simp_all
  then have "(100::rat) < 2 ^ 1075" by simp
  then have u: "underflowBound < 1 / 100"
    unfolding underflowBound_def by (simp add: field_simps)
  have "1 \<le> rat_of_nat k" using assms(1) by simp
  then have "1 / 100 \<le> rat_of_nat k / 100" by (simp add: divide_right_mono)
  with u have "underflowBound < \<bar>rat_of_nat k / 100\<bar>" by simp
  moreover have "0 < overflowBound" using assms by (meson le_less_trans of_nat_0_le_iff divide_nonneg_pos zero_less_numeral)
  ultimately show ?thesis using assms(2) by (simp add: toNumber_def)
qed

text \<open>
  C10. Let the price be \<open>k\<close> hundredths with \<open>0 < k\<close>, below the bound at which a number
  becomes an infinity: a strictly positive finite number with at most two decimal
  digits. Then normalizing the display string of the price gives the price back. The
  display string is the integer digits in groups of three separated by \<open>U+00A0\<close>, a
  decimal comma before the hundredths when there are any, and the suffix of a space,
  \<open>K\<close> and \<open>U+010D\<close>.
\<close>

theorem round_trip:
  assumes "0 < k" and "rat_of_nat k / 100 < overflowBound"
  shows "parseCzechNumber (formatCzechPrice (Num (of_nat k / 100))) = Some (Num (of_nat k / 100))"
proof -
  let ?D = "decimalDigits (k div 100)"
  let ?f = "k mod 100"
  let ?fd = "fractionDigits ?f"
  let ?F = "if ?fd = [] then [] else 46 # ?fd"
  let ?text = "formatCzechPrice (Num (of_nat k / 100))"
  have f100: "?f < 100" by simp
  have Dd: "\<forall>c\<in>set ?D. isDigit c" by (rule decimalDigits_digits)
  have Dn: "?D \<noteq> []" by (rule decimalDigits_nonempty)
  have fdd: "\<forall>c\<in>set ?fd. isDigit c" using fractionDigits_digits[OF f100] .
  have fmt: "?text = (groups ?D @ fraction ?f) @ (ascii '' K'' @ [ccaron])"
    by (simp add: formatCzechPrice_def toLocaleString_hundredths)
  have Gset: "\<forall>c\<in>set (groups ?D). isDigit c \<or> c = 160"
    using groups_set[of ?D] Dd by auto
  have Fset: "\<forall>c\<in>set (fraction ?f). isDigit c \<or> c = 44"
    using fdd by (auto simp add: fraction_shape)
  have "\<forall>c\<in>set (groups ?D @ fraction ?f). c \<notin> {75, 107, 67, 99, 38}"
    using Gset Fset by (auto simp add: isDigit_def)
  then have s1: "replaceAll re_currency [] ?text = groups ?D @ fraction ?f @ [32]"
    by (simp add: fmt currency_skip currency_marker del: append_assoc)
  have Fns: "filter (\<lambda>c. \<not> isSpace c) (fraction ?f) = fraction ?f"
    using Fset by (auto simp add: filter_id_conv isDigit_def isSpace_def)
  have Dns: "\<forall>c\<in>set ?D. \<not> isSpace c" using Dd isDigit_not_space by blast
  have sp: "isSpace 32" by (simp add: isSpace_def)
  have s2: "replaceAll re_space [] (groups ?D @ fraction ?f @ [32]) = ?D @ fraction ?f"
    by (simp add: space_filter groups_filter[OF Dns] Fns sp)
  have mD: "map (\<lambda>c. if c = 44 then 46 else c) ?D = ?D"
    using Dd by (intro map_idI) (auto simp add: isDigit_def)
  have mfd: "map (\<lambda>c. if c = 44 then 46 else c) ?fd = ?fd"
    using fdd by (intro map_idI) (auto simp add: isDigit_def)
  have s3: "replaceAll re_comma (ascii ''.'') (?D @ fraction ?f) = ?D @ ?F"
    by (simp add: comma_map mD mfd fraction_shape)
  have "\<forall>c\<in>set (?D @ ?F). c \<noteq> 45 \<and> c \<noteq> enDash"
    using Dd fdd by (auto simp add: isDigit_def enDash_def)
  then have "search re_trailingDash (?D @ ?F) = None" by (rule no_dash_no_match)
  then have s4: "replace re_trailingDash [] (?D @ ?F) = ?D @ ?F" by (simp add: replace_def)
  have hd: "\<not> isSpace (hd (?D @ ?F))"
    using Dn Dns by (simp add: hd_append)
  have "isDigit (last (?D @ ?F))"
    using Dn Dd fdd by (auto simp add: last_append)
  then have lst: "\<not> isSpace (last (?D @ ?F))" by (rule isDigit_not_space)
  have s5: "trim (?D @ ?F) = ?D @ ?F"
    using Dn hd lst by (intro trim_id) auto
  have cl: "cleaned ?text = ?D @ ?F"
    by (simp only: cleaned_def s1 s2 s3 s4 s5)
  have "parseFloat (?D @ ?F) =
          toNumber (of_nat (digitsValue (?D @ ?fd)) / 10 ^ length ?fd)"
    using parseFloat_plain[OF Dn Dd fdd] by simp
  also have "\<dots> = toNumber (rat_of_nat (k div 100) + rat_of_nat ?f / 100)"
    using fractionDigits_value[OF f100, of ?D] by (simp add: digitsValue_decimalDigits)
  also have "\<dots> = Num (rat_of_nat k / 100)"
    by (simp only: hundredths_split toNumber_in_range[OF assms])
  finally have pf: "parseFloat (cleaned ?text) = Num (rat_of_nat k / 100)"
    using cl by simp
  have ne: "?text \<noteq> []" by (simp add: fmt)
  have cne: "cleaned ?text \<noteq> []" using cl Dn by simp
  show ?thesis
    using ne cne pf assms(1)
    by (simp add: parseCzechNumber_def Let_def isNaN_def positive_def)
qed

text \<open>
  The property on the price 1234.5, whose display string is 1, \<open>U+00A0\<close>, "234,5 K"
  and \<open>U+010D\<close>.
\<close>

theorem round_trip_witness:
  "0 < (123450::nat) \<and> rat_of_nat 123450 / 100 < overflowBound
   \<and> formatCzechPrice (Num (of_nat 123450 / 100)) = [49, 0xA0] @ ascii ''234,5 K'' @ [ccaron]
   \<and> parseCzechNumber (formatCzechPrice (Num (of_nat 123450 / 100))) = Some (Num 1234.5)"
proof -
  have h1: "0 < (123450::nat)" by simp
  have h2: "rat_of_nat 123450 / 100 < overflowBound" by (simp add: overflowBound_def)
  have d: "decimalDigits 1234 = ascii ''1234''"
    by (simp add: decimalDigits.simps ascii_def)
  have g: "groups (ascii ''1234'') = [49, 0xA0, 50, 51, 52]"
    by (simp add: groups.simps ascii_def)
  have fr: "fraction 50 = ascii '',5''" by (simp add: fraction_def ascii_def)
  have "toLocaleString (Num (of_nat 123450 / 100)) =
          groups (decimalDigits (123450 div 100)) @ fraction (123450 mod 100)"
    by (rule toLocaleString_hundredths)
  also have "\<dots> = [49, 0xA0, 50, 51, 52] @ ascii '',5''" by (simp add: d g fr)
  finally have f: "formatCzechPrice (Num (of_nat 123450 / 100)) =
             [49, 0xA0] @ ascii ''234,5 K'' @ [ccaron]"
    by (simp add: formatCzechPrice_def ascii_def)
  from round_trip[OF h1 h2] h1 h2 f show ?thesis by simp
qed

subsection \<open>The product name\<close>














lemmas regex_defs =
  replace_def isSpace_def isDigit_def isWord_def lit_def liti_def canonicalize_def
  ccaron_def enDash_def backtrack.simps















end
